theory Spec2Isabelle
  imports Main "HOL-Library.AList" "HOL-Library.Word"
begin

section \<open>The collaboration server of MUCK: data model\<close>

text \<open>
  The development embeds \<open>server/db.ts\<close>, \<open>server/websocket.ts\<close> and the offline
  recovery manager. Every asynchronous function is run to completion where it is called:
  a handler is one atomic step on the server state. Libraries the repository only calls
  (Yjs, Buffer, JSON) are parameters of the model, collected in the record \<open>lib\<close>.
\<close>

type_synonym bytes = "8 word list"

text \<open>The rows of the tables of \<open>drizzle/schema\<close>, with the columns the code reads and writes.\<close>

record user_row =
  u_id :: nat
  u_openId :: string
  u_name :: "string option"

record document_row =
  d_id :: nat
  d_ownerId :: nat
  d_snapshotState :: "string option"
  d_snapshotVersion :: "nat option"

record permission_row =
  p_documentId :: nat
  p_userId :: nat
  p_role :: string

record operation_row =
  o_documentId :: nat
  o_clientId :: string
  o_userId :: nat
  o_updateData :: string
  o_lamportTime :: nat
  o_vectorClock :: "(string \<times> nat) list"
  o_version :: nat

record session_row =
  s_documentId :: nat
  s_userId :: nat
  s_clientId :: string
  s_userColor :: string

record offline_row =
  q_clientId :: string
  q_documentId :: nat
  q_updateData :: string
  q_sequenceNumber :: nat

text \<open>
  The database behind \<open>getDb()\<close>. \<open>faults\<close> is the fate of the queries to come: each
  query takes the head of the list and rejects when it is \<open>True\<close>; an empty list means
  that no query fails any more.
\<close>

record store =
  tbl_users :: "user_row list"
  tbl_documents :: "document_row list"
  tbl_documentPermissions :: "permission_row list"
  tbl_operations :: "operation_row list"
  tbl_sessions :: "session_row list"
  tbl_offlineQueue :: "offline_row list"
  faults :: "bool list"

datatype error = DatabaseNotAvailable | QueryRejected

definition run_query :: "store \<Rightarrow> bool \<times> store" where
  "run_query st =
     (case faults st of
        [] \<Rightarrow> (False, st)
      | f # fs \<Rightarrow> (f, st\<lparr>faults := fs\<rparr>))"

subsection \<open>Conditions of drizzle-orm, and JavaScript's \<open>&&\<close> on them\<close>

type_synonym 'r sql = "'r \<Rightarrow> bool"

definition eq :: "('r \<Rightarrow> 'a) \<Rightarrow> 'a \<Rightarrow> 'r sql" where
  "eq col v = (\<lambda>r. col r = v)"

definition gt :: "('r \<Rightarrow> nat) \<Rightarrow> nat \<Rightarrow> 'r sql" where
  "gt col v = (\<lambda>r. v < col r)"

text \<open>\<open>eq(..)\<close> and \<open>gt(..)\<close> return objects, and every JavaScript object is truthy.\<close>

definition truthy :: "'r sql \<Rightarrow> bool" where
  "truthy c = True"

text \<open>\<open>a && b\<close> is \<open>b\<close> when \<open>a\<close> is truthy, and \<open>a\<close> otherwise.\<close>

definition js_and :: "'r sql \<Rightarrow> 'r sql \<Rightarrow> 'r sql" where
  "js_and a b = (if truthy a then b else a)"

definition first_row :: "'r list \<Rightarrow> 'r option" where
  "first_row result = (case result of [] \<Rightarrow> None | r # _ \<Rightarrow> Some r)"

subsection \<open>\<open>server/db.ts\<close>\<close>

definition getUserByOpenId ::
  "store option \<Rightarrow> string \<Rightarrow> (error + user_row option) \<times> store option" where
  "getUserByOpenId db openId =
     (case db of
        None \<Rightarrow> (Inr None, None)
      | Some st \<Rightarrow>
          (case run_query st of
             (True, st') \<Rightarrow> (Inl QueryRejected, Some st')
           | (False, st') \<Rightarrow>
               (Inr (first_row (take 1 (filter (eq u_openId openId) (tbl_users st')))),
                Some st')))"

definition getDocument ::
  "store option \<Rightarrow> nat \<Rightarrow> (error + document_row option) \<times> store option" where
  "getDocument db documentId =
     (case db of
        None \<Rightarrow> (Inr None, None)
      | Some st \<Rightarrow>
          (case run_query st of
             (True, st') \<Rightarrow> (Inl QueryRejected, Some st')
           | (False, st') \<Rightarrow>
               (Inr (first_row (take 1 (filter (eq d_id documentId) (tbl_documents st')))),
                Some st')))"

definition checkDocumentAccess ::
  "store option \<Rightarrow> nat \<Rightarrow> nat \<Rightarrow> (error + permission_row option) \<times> store option" where
  "checkDocumentAccess db documentId userId =
     (case db of
        None \<Rightarrow> (Inr None, None)
      | Some st \<Rightarrow>
          (case run_query st of
             (True, st') \<Rightarrow> (Inl QueryRejected, Some st')
           | (False, st') \<Rightarrow>
               (Inr (first_row (take 1 (filter
                  (js_and (eq p_documentId documentId) (eq p_userId userId))
                  (tbl_documentPermissions st')))),
                Some st')))"

definition addOperation ::
  "store option \<Rightarrow> operation_row \<Rightarrow> (error + unit) \<times> store option" where
  "addOperation db row =
     (case db of
        None \<Rightarrow> (Inl DatabaseNotAvailable, None)
      | Some st \<Rightarrow>
          (case run_query st of
             (True, st') \<Rightarrow> (Inl QueryRejected, Some st')
           | (False, st') \<Rightarrow>
               (Inr (), Some (st'\<lparr>tbl_operations := tbl_operations st' @ [row]\<rparr>))))"

definition getOperationsSince ::
  "store option \<Rightarrow> nat \<Rightarrow> nat \<Rightarrow> (error + operation_row list) \<times> store option" where
  "getOperationsSince db documentId v =
     (case db of
        None \<Rightarrow> (Inr [], None)
      | Some st \<Rightarrow>
          (case run_query st of
             (True, st') \<Rightarrow> (Inl QueryRejected, Some st')
           | (False, st') \<Rightarrow>
               (Inr (sort_key o_version (filter
                  (js_and (eq o_documentId documentId) (gt o_version v))
                  (tbl_operations st'))),
                Some st')))"

definition createSession ::
  "store option \<Rightarrow> nat \<Rightarrow> nat \<Rightarrow> string \<Rightarrow> string \<Rightarrow> (error + unit) \<times> store option" where
  "createSession db documentId userId clientId userColor =
     (case db of
        None \<Rightarrow> (Inl DatabaseNotAvailable, None)
      | Some st \<Rightarrow>
          (case run_query st of
             (True, st') \<Rightarrow> (Inl QueryRejected, Some st')
           | (False, st') \<Rightarrow>
               (Inr (), Some (st'\<lparr>tbl_sessions := tbl_sessions st' @
                  [\<lparr>s_documentId = documentId, s_userId = userId,
                    s_clientId = clientId, s_userColor = userColor\<rparr>]\<rparr>))))"

definition deleteSession ::
  "store option \<Rightarrow> string \<Rightarrow> (error + unit) \<times> store option" where
  "deleteSession db clientId =
     (case db of
        None \<Rightarrow> (Inr (), None)
      | Some st \<Rightarrow>
          (case run_query st of
             (True, st') \<Rightarrow> (Inl QueryRejected, Some st')
           | (False, st') \<Rightarrow>
               (Inr (), Some (st'\<lparr>tbl_sessions :=
                  filter (\<lambda>r. \<not> eq s_clientId clientId r) (tbl_sessions st')\<rparr>))))"

definition getOfflineQueue ::
  "store option \<Rightarrow> string \<Rightarrow> nat \<Rightarrow> (error + offline_row list) \<times> store option" where
  "getOfflineQueue db clientId documentId =
     (case db of
        None \<Rightarrow> (Inr [], None)
      | Some st \<Rightarrow>
          (case run_query st of
             (True, st') \<Rightarrow> (Inl QueryRejected, Some st')
           | (False, st') \<Rightarrow>
               (Inr (sort_key q_sequenceNumber (filter
                  (js_and (eq q_clientId clientId) (eq q_documentId documentId))
                  (tbl_offlineQueue st'))),
                Some st')))"

definition clearOfflineQueue ::
  "store option \<Rightarrow> string \<Rightarrow> nat \<Rightarrow> (error + unit) \<times> store option" where
  "clearOfflineQueue db clientId documentId =
     (case db of
        None \<Rightarrow> (Inr (), None)
      | Some st \<Rightarrow>
          (case run_query st of
             (True, st') \<Rightarrow> (Inl QueryRejected, Some st')
           | (False, st') \<Rightarrow>
               (Inr (), Some (st'\<lparr>tbl_offlineQueue := filter
                  (\<lambda>r. \<not> js_and (eq q_clientId clientId) (eq q_documentId documentId) r)
                  (tbl_offlineQueue st')\<rparr>))))"

subsection \<open>The libraries the server calls\<close>

text \<open>
  \<open>Y.applyUpdate\<close> changes the document in place and may throw on bytes it cannot decode:
  \<open>Applied d\<close> is the document after a merge, \<open>Threw d\<close> the document the engine left
  behind when it threw.
\<close>

datatype 'd applied = Applied 'd | Threw 'd

record jwt_payload =
  openId :: string
  exp :: int

text \<open>
  \<open>newDoc\<close> is \<open>new Y.Doc()\<close>; \<open>base64_decode s\<close> is \<open>Buffer.from(s, "base64")\<close> and
  \<open>base64_encode b\<close> is \<open>Buffer.from(b).toString("base64")\<close>; \<open>json_payload s\<close> is
  \<open>JSON.parse(Buffer.from(s, "base64").toString())\<close> at the type \<open>parseJWT\<close> declares,
  \<open>None\<close> when it throws or yields a value that \<open>!payload\<close> rejects (\<open>null\<close>).
\<close>

record 'd lib =
  newDoc :: 'd
  applyUpdate :: "'d \<Rightarrow> bytes \<Rightarrow> 'd applied"
  encodeStateAsUpdate :: "'d \<Rightarrow> bytes"
  base64_decode :: "string \<Rightarrow> bytes"
  base64_encode :: "bytes \<Rightarrow> string"
  json_payload :: "string \<Rightarrow> jwt_payload option"

definition applied_doc :: "'d applied \<Rightarrow> 'd" where
  "applied_doc r = (case r of Applied d \<Rightarrow> d | Threw d \<Rightarrow> d)"

subsection \<open>Offline recovery\<close>

text \<open>The \<open>for\<close> loop of \<open>recoverOfflineOperations\<close>: document, \<open>recovered\<close>, \<open>conflicts\<close>.\<close>

fun recover_loop ::
  "'d lib \<Rightarrow> offline_row list \<Rightarrow> 'd \<Rightarrow> nat \<Rightarrow> nat \<Rightarrow> 'd \<times> nat \<times> nat" where
  "recover_loop L [] ydoc recovered conflicts = (ydoc, recovered, conflicts)"
| "recover_loop L (queuedOp # rest) ydoc recovered conflicts =
     (case applyUpdate L ydoc (base64_decode L (q_updateData queuedOp)) of
        Applied d \<Rightarrow> recover_loop L rest d (recovered + 1) conflicts
      | Threw d \<Rightarrow> recover_loop L rest d recovered (conflicts + 1))"

text \<open>The result: what the promise settles to, the database and the document afterwards.\<close>

definition recoverOfflineOperations ::
  "'d lib \<Rightarrow> store option \<Rightarrow> string \<Rightarrow> nat \<Rightarrow> 'd \<Rightarrow>
     (error + nat \<times> nat) \<times> store option \<times> 'd" where
  "recoverOfflineOperations L db clientId documentId ydoc =
     (case getOfflineQueue db clientId documentId of
        (Inl e, db1) \<Rightarrow> (Inl e, db1, ydoc)
      | (Inr queuedOps, db1) \<Rightarrow>
          if length queuedOps = 0 then (Inr (0, 0), db1, ydoc)
          else
            (case recover_loop L queuedOps ydoc 0 0 of
               (ydoc', recovered, conflicts) \<Rightarrow>
                 (case clearOfflineQueue db1 clientId documentId of
                    (Inl e, db2) \<Rightarrow> (Inl e, db2, ydoc')
                  | (Inr _, db2) \<Rightarrow> (Inr (recovered, conflicts), db2, ydoc'))))"

section \<open>\<open>server/websocket.ts\<close>\<close>

subsection \<open>Messages, sessions and rooms\<close>

record join_room_message =
  jr_documentId :: nat
  jr_clientId :: string
  jr_token :: "string option"

record update_message =
  um_update :: bytes
  um_clientId :: string

record user_session =
  us_userId :: nat
  us_clientId :: string
  us_documentId :: nat
  us_color :: string
  us_lastHeartbeat :: nat

record buffered_op =
  bo_update :: bytes
  bo_clientId :: string
  bo_timestamp :: nat

record snapshot_marker =
  version :: nat
  timestamp :: nat

text \<open>
  \<open>users\<close> and \<open>vectorClocks\<close> are JavaScript \<open>Map\<close>s: association lists in insertion
  order, where \<open>set\<close> on a key that is present replaces its value in place. The field
  \<open>text\<close> of the source is a view of \<open>doc\<close> that the server never reads.
\<close>

record 'd document_room =
  doc :: 'd
  users :: "(string \<times> user_session) list"
  lamportTime :: nat
  vectorClocks :: "(string \<times> nat) list"
  operationBuffer :: "buffered_op list"
  lastSnapshot :: snapshot_marker

text \<open>What the server emits: the event name with its payload.\<close>

datatype event =
    ErrorEv string string
  | RoomJoined nat string "(string \<times> nat \<times> string) list" bytes nat
  | UserJoined nat string "string option" string
  | UserLeft string nat
  | UpdateEv bytes string nat nat

text \<open>
  The state of \<open>setupWebSocket\<close>: the registry \<open>rooms\<close>, the counter \<open>colorIndex\<close>, the
  database, the sockets that socket.io holds open (\<open>connected\<close>), the sockets that joined
  the socket.io room \<open>doc:<documentId>\<close> (\<open>channel\<close>), and the variable \<open>currentSession\<close>
  of each connection, by socket. The server would close a connection with
  \<open>socket.disconnect()\<close>, which takes the socket out of \<open>connected\<close>; no handler of the
  source calls it.
\<close>

record 'd server =
  rooms :: "nat \<rightharpoonup> 'd document_room"
  colorIndex :: nat
  database :: "store option"
  connected :: "nat set"
  channel :: "nat \<Rightarrow> nat list"
  currentSession :: "nat \<rightharpoonup> user_session"

subsection \<open>socket.io\<close>

text \<open>An emission is a list of (receiving socket, event).\<close>

definition socket_emit :: "nat \<Rightarrow> event \<Rightarrow> (nat \<times> event) list" where
  "socket_emit sid ev = [(sid, ev)]"

text \<open>\<open>socket.to(room).emit\<close>: every socket of the room but the sender.\<close>

definition socket_to :: "'d server \<Rightarrow> nat \<Rightarrow> nat \<Rightarrow> event \<Rightarrow> (nat \<times> event) list" where
  "socket_to s sid documentId ev =
     map (\<lambda>t. (t, ev)) (filter (\<lambda>t. t \<noteq> sid) (channel s documentId))"

text \<open>\<open>io.to(room).emit\<close>: every socket of the room.\<close>

definition io_to :: "'d server \<Rightarrow> nat \<Rightarrow> event \<Rightarrow> (nat \<times> event) list" where
  "io_to s documentId ev = map (\<lambda>t. (t, ev)) (channel s documentId)"

definition socket_join :: "'d server \<Rightarrow> nat \<Rightarrow> nat \<Rightarrow> 'd server" where
  "socket_join s sid documentId =
     s\<lparr>channel := (channel s)(documentId :=
        (if sid \<in> set (channel s documentId) then channel s documentId
         else channel s documentId @ [sid]))\<rparr>"

subsection \<open>Helpers of the server\<close>

definition COLORS :: "string list" where
  "COLORS = [''#FF6B6B'', ''#4ECDC4'', ''#45B7D1'', ''#FFA07A'',
             ''#98D8C8'', ''#F7DC6F'', ''#BB8FCE'', ''#85C1E2'']"

definition getNextColor :: "nat \<Rightarrow> string \<times> nat" where
  "getNextColor i = (COLORS ! (i mod length COLORS), i + 1)"

text \<open>\<open>String.prototype.split\<close> with a one-character separator.\<close>

fun js_split :: "char \<Rightarrow> string \<Rightarrow> string list" where
  "js_split c [] = [[]]"
| "js_split c (x # xs) =
     (if x = c then [] # js_split c xs
      else (case js_split c xs of
              [] \<Rightarrow> [[x]]
            | p # ps \<Rightarrow> (x # p) # ps))"

text \<open>A token that is not a string makes \<open>token.split\<close> throw, which \<open>parseJWT\<close> catches.\<close>

definition parseJWT :: "'d lib \<Rightarrow> string option \<Rightarrow> jwt_payload option" where
  "parseJWT L token =
     (case token of
        None \<Rightarrow> None
      | Some t \<Rightarrow>
          (let parts = js_split (CHR ''.'') t in
           if length parts \<noteq> 3 then None
           else json_payload L (parts ! 1)))"

definition getOrCreateRoom ::
  "'d lib \<Rightarrow> nat \<Rightarrow> nat \<Rightarrow> 'd server \<Rightarrow> (error + 'd document_room option) \<times> 'd server" where
  "getOrCreateRoom L now documentId s =
     (case rooms s documentId of
        Some room \<Rightarrow> (Inr (Some room), s)
      | None \<Rightarrow>
          (case getDocument (database s) documentId of
             (Inl e, db1) \<Rightarrow> (Inl e, s\<lparr>database := db1\<rparr>)
           | (Inr None, db1) \<Rightarrow> (Inr None, s\<lparr>database := db1\<rparr>)
           | (Inr (Some docRow), db1) \<Rightarrow>
               (let ydoc =
                      (case d_snapshotState docRow of
                         None \<Rightarrow> newDoc L
                       | Some state \<Rightarrow>
                           if state = [] then newDoc L
                           else applied_doc (applyUpdate L (newDoc L) (base64_decode L state)));
                    room = \<lparr>doc = ydoc, users = [], lamportTime = 0, vectorClocks = [],
                            operationBuffer = [],
                            lastSnapshot = \<lparr>version =
                                (case d_snapshotVersion docRow of None \<Rightarrow> 0 | Some v \<Rightarrow> v),
                              timestamp = now\<rparr>\<rparr>
                in (Inr (Some room),
                    s\<lparr>database := db1, rooms := (rooms s)(documentId \<mapsto> room)\<rparr>))))"

text \<open>
  \<open>persistSnapshot\<close> encodes the state, asks for the database and logs; it calls no query.
  It returns the room and the database it leaves. Its callers do not await it; here it has
  finished when the caller goes on.
\<close>

definition persistSnapshot ::
  "'d lib \<Rightarrow> nat \<Rightarrow> store option \<Rightarrow> nat \<Rightarrow> 'd document_room \<Rightarrow>
     'd document_room \<times> store option" where
  "persistSnapshot L now db documentId room =
     (let state = encodeStateAsUpdate L (doc room);
          stateBase64 = base64_encode L state
      in (room\<lparr>operationBuffer := [],
               lastSnapshot := \<lparr>version = version (lastSnapshot room) + 1, timestamp = now\<rparr>\<rparr>,
          db))"

definition broadcastUpdate ::
  "'d lib \<Rightarrow> nat \<Rightarrow> nat \<Rightarrow> bytes \<Rightarrow> string \<Rightarrow> nat \<Rightarrow> 'd server \<Rightarrow>
     'd server \<times> (nat \<times> event) list" where
  "broadcastUpdate L now documentId upd cid lt s =
     (case rooms s documentId of
        None \<Rightarrow> (s, [])
      | Some room \<Rightarrow>
          (let out = io_to s documentId (UpdateEv upd cid lt now);
               room1 = room\<lparr>operationBuffer := operationBuffer room @
                          [\<lparr>bo_update = upd, bo_clientId = cid, bo_timestamp = now\<rparr>]\<rparr>
           in if length (operationBuffer room1) > 100 then
                (case persistSnapshot L now (database s) documentId room1 of
                   (room2, db') \<Rightarrow>
                     (s\<lparr>rooms := (rooms s)(documentId \<mapsto> room2), database := db'\<rparr>, out))
              else (s\<lparr>rooms := (rooms s)(documentId \<mapsto> room1)\<rparr>, out)))"

subsection \<open>The handlers of a connection\<close>

text \<open>\<open>io.on("connection", ..)\<close>: the socket is open and its \<open>currentSession\<close> is \<open>null\<close>.\<close>

definition on_connection :: "nat \<Rightarrow> 'd server \<Rightarrow> 'd server" where
  "on_connection sid s =
     s\<lparr>connected := insert sid (connected s),
       currentSession := (currentSession s)(sid := None)\<rparr>"

definition server_error :: event where
  "server_error = ErrorEv ''Internal server error'' ''SERVER_ERROR''"

definition update_failed :: event where
  "update_failed = ErrorEv ''Failed to process update'' ''UPDATE_FAILED''"

text \<open>
  The access check of \<open>join_room\<close>: \<open>True\<close> when the handler goes on to create the session.
  A document row that is gone, and the owner, pass without a query.
\<close>

definition check_access ::
  "store option \<Rightarrow> document_row option \<Rightarrow> user_row \<Rightarrow> nat \<Rightarrow> (error + bool) \<times> store option" where
  "check_access db docRow user documentId =
     (case docRow of
        None \<Rightarrow> (Inr True, db)
      | Some d \<Rightarrow>
          if d_ownerId d \<noteq> u_id user then
            (case checkDocumentAccess db documentId (u_id user) of
               (Inl e, db') \<Rightarrow> (Inl e, db')
             | (Inr access, db') \<Rightarrow> (Inr (access \<noteq> None), db'))
          else (Inr True, db))"

text \<open>The rest of \<open>join_room\<close>, from "Create session" on; \<open>room\<close> is the registry's room.\<close>

definition admit ::
  "'d lib \<Rightarrow> nat \<Rightarrow> nat \<Rightarrow> join_room_message \<Rightarrow> user_row \<Rightarrow> 'd document_room \<Rightarrow> 'd server \<Rightarrow>
     'd server \<times> (nat \<times> event) list" where
  "admit L now sid message user room s =
     (case getNextColor (colorIndex s) of
        (c, i) \<Rightarrow>
          (let session = \<lparr>us_userId = u_id user, us_clientId = jr_clientId message,
                          us_documentId = jr_documentId message, us_color = c,
                          us_lastHeartbeat = now\<rparr>;
               room1 = room\<lparr>users := AList.update (jr_clientId message) session (users room)\<rparr>;
               s1 = s\<lparr>colorIndex := i,
                      currentSession := (currentSession s)(sid \<mapsto> session),
                      rooms := (rooms s)(jr_documentId message \<mapsto> room1)\<rparr>
           in (case createSession (database s1) (jr_documentId message) (u_id user)
                       (jr_clientId message) c of
                 (Inl e, db') \<Rightarrow> (s1\<lparr>database := db'\<rparr>, socket_emit sid server_error)
               | (Inr _, db') \<Rightarrow>
                   (let s2 = socket_join (s1\<lparr>database := db'\<rparr>) sid (jr_documentId message)
                    in (s2,
                        socket_emit sid
                          (RoomJoined (jr_documentId message) (jr_clientId message)
                             (map (\<lambda>u. (us_clientId u, us_userId u, us_color u))
                                (map snd (users room1)))
                             (encodeStateAsUpdate L (doc room1)) (lamportTime room1)) @
                        socket_to s2 sid (jr_documentId message)
                          (UserJoined (u_id user) (jr_clientId message) (u_name user) c))))))"

definition on_join_room ::
  "'d lib \<Rightarrow> nat \<Rightarrow> nat \<Rightarrow> join_room_message \<Rightarrow> 'd server \<Rightarrow> 'd server \<times> (nat \<times> event) list" where
  "on_join_room L now sid message s =
     (case parseJWT L (jr_token message) of
        None \<Rightarrow> (s, socket_emit sid (ErrorEv ''Invalid token'' ''AUTH_FAILED''))
      | Some payload \<Rightarrow>
          (case getUserByOpenId (database s) (openId payload) of
             (Inl e, db1) \<Rightarrow> (s\<lparr>database := db1\<rparr>, socket_emit sid server_error)
           | (Inr None, db1) \<Rightarrow>
               (s\<lparr>database := db1\<rparr>,
                socket_emit sid (ErrorEv ''User not found'' ''USER_NOT_FOUND''))
           | (Inr (Some user), db1) \<Rightarrow>
               (case getOrCreateRoom L now (jr_documentId message) (s\<lparr>database := db1\<rparr>) of
                  (Inl e, s2) \<Rightarrow> (s2, socket_emit sid server_error)
                | (Inr None, s2) \<Rightarrow>
                    (s2, socket_emit sid (ErrorEv ''Document not found'' ''NOT_FOUND''))
                | (Inr (Some room), s2) \<Rightarrow>
                    (case getDocument (database s2) (jr_documentId message) of
                       (Inl e, db3) \<Rightarrow> (s2\<lparr>database := db3\<rparr>, socket_emit sid server_error)
                     | (Inr docRow, db3) \<Rightarrow>
                         (case check_access db3 docRow user (jr_documentId message) of
                            (Inl e, db4) \<Rightarrow> (s2\<lparr>database := db4\<rparr>, socket_emit sid server_error)
                          | (Inr False, db4) \<Rightarrow>
                              (s2\<lparr>database := db4\<rparr>,
                               socket_emit sid (ErrorEv ''Access denied'' ''ACCESS_DENIED''))
                          | (Inr True, db4) \<Rightarrow>
                              admit L now sid message user room (s2\<lparr>database := db4\<rparr>))))))"

definition on_update ::
  "'d lib \<Rightarrow> nat \<Rightarrow> nat \<Rightarrow> update_message \<Rightarrow> 'd server \<Rightarrow> 'd server \<times> (nat \<times> event) list" where
  "on_update L now sid message s =
     (case currentSession s sid of
        None \<Rightarrow> (s, socket_emit sid (ErrorEv ''Not in room'' ''NOT_IN_ROOM''))
      | Some cs \<Rightarrow>
          (case rooms s (us_documentId cs) of
             None \<Rightarrow> (s, [])
           | Some room \<Rightarrow>
               (case applyUpdate L (doc room) (um_update message) of
                  Threw d \<Rightarrow>
                    (s\<lparr>rooms := (rooms s)(us_documentId cs \<mapsto> room\<lparr>doc := d\<rparr>)\<rparr>,
                     socket_emit sid update_failed)
                | Applied d \<Rightarrow>
                    (let room1 = room\<lparr>doc := d, lamportTime := lamportTime room + 1,
                                   vectorClocks := AList.update (um_clientId message)
                                     ((case map_of (vectorClocks room) (um_clientId message) of
                                         None \<Rightarrow> 0 | Some n \<Rightarrow> n) + 1)
                                     (vectorClocks room)\<rparr>;
                         s1 = s\<lparr>rooms := (rooms s)(us_documentId cs \<mapsto> room1)\<rparr>
                     in (case addOperation (database s1)
                                \<lparr>o_documentId = us_documentId cs,
                                 o_clientId = um_clientId message,
                                 o_userId = us_userId cs,
                                 o_updateData = base64_encode L (um_update message),
                                 o_lamportTime = lamportTime room1,
                                 o_vectorClock = vectorClocks room1,
                                 o_version = version (lastSnapshot room1) +
                                             length (operationBuffer room1)\<rparr> of
                           (Inl e, db') \<Rightarrow> (s1\<lparr>database := db'\<rparr>, socket_emit sid update_failed)
                         | (Inr _, db') \<Rightarrow>
                             broadcastUpdate L now (us_documentId cs) (um_update message)
                               (um_clientId message) (lamportTime room1)
                               (s1\<lparr>database := db'\<rparr>))))))"

text \<open>
  socket.io takes a closing socket out of its open connections and out of every room
  before it fires \<open>disconnect\<close>. A failure of \<open>deleteSession\<close> is caught and logged.
\<close>

definition on_disconnect ::
  "'d lib \<Rightarrow> nat \<Rightarrow> nat \<Rightarrow> 'd server \<Rightarrow> 'd server \<times> (nat \<times> event) list" where
  "on_disconnect L now sid s0 =
     (let s = s0\<lparr>connected := connected s0 - {sid},
                  channel := (\<lambda>d. removeAll sid (channel s0 d))\<rparr> in
      case currentSession s sid of
        None \<Rightarrow> (s, [])
      | Some cs \<Rightarrow>
          (case (case rooms s (us_documentId cs) of
                   None \<Rightarrow> (s, [])
                 | Some room \<Rightarrow>
                     (let room1 = room\<lparr>users := AList.delete (us_clientId cs) (users room)\<rparr>;
                          out = socket_to s sid (us_documentId cs)
                                  (UserLeft (us_clientId cs) (us_userId cs))
                      in if length (users room1) = 0 then
                           (case persistSnapshot L now (database s) (us_documentId cs) room1 of
                              (room2, db') \<Rightarrow>
                                (s\<lparr>rooms := (rooms s)(us_documentId cs := None),
                                   database := db'\<rparr>, out))
                         else (s\<lparr>rooms := (rooms s)(us_documentId cs \<mapsto> room1)\<rparr>, out))) of
             (s1, out) \<Rightarrow>
               (case deleteSession (database s1) (us_clientId cs) of
                  (_, db') \<Rightarrow> (s1\<lparr>database := db'\<rparr>, out))))"

section \<open>A concrete library and database for the closed instances\<close>

text \<open>
  Where a theorem is instantiated, the libraries are given at the values used. The
  updates are Yjs updates (encoding v1) on the text \<open>shared-text\<close>: client 1 inserts
  \<open>a\<close> into the empty text, client 2 inserts \<open>b\<close> into the empty text, the state that
  holds both inserts, and the state of the empty document.
\<close>

definition yjs_insert_a :: bytes where
  "yjs_insert_a =
     [1, 1, 1, 0, 4, 1, 11, 115, 104, 97, 114, 101, 100, 45, 116, 101, 120, 116, 1, 97, 0]"

definition yjs_insert_b :: bytes where
  "yjs_insert_b =
     [1, 1, 2, 0, 4, 1, 11, 115, 104, 97, 114, 101, 100, 45, 116, 101, 120, 116, 1, 98, 0]"

definition yjs_insert_a_b :: bytes where
  "yjs_insert_a_b =
     [2, 1, 2, 0, 4, 1, 11, 115, 104, 97, 114, 101, 100, 45, 116, 101, 120, 116, 1, 98,
      1, 1, 0, 4, 1, 11, 115, 104, 97, 114, 101, 100, 45, 116, 101, 120, 116, 1, 97, 0]"

definition yjs_empty :: bytes where
  "yjs_empty = [0, 0]"

text \<open>
  A document of the test engine is the set of the clients whose insert it holds.
  \<open>test_structs\<close> reads the clients out of an update, \<open>None\<close> for bytes that are none of
  the four updates (the engine throws on them, as Yjs does on the empty array); merging
  is union, so it is commutative and idempotent.
\<close>

definition test_structs :: "bytes \<Rightarrow> nat set option" where
  "test_structs u =
     (if u = yjs_insert_a then Some {1}
      else if u = yjs_insert_b then Some {2}
      else if u = yjs_insert_a_b then Some {1, 2}
      else if u = yjs_empty then Some {}
      else None)"

definition test_apply :: "nat set \<Rightarrow> bytes \<Rightarrow> nat set applied" where
  "test_apply d u =
     (case test_structs u of
        None \<Rightarrow> Threw d
      | Some cs \<Rightarrow> Applied (d \<union> cs))"

definition test_state :: "nat set \<Rightarrow> bytes" where
  "test_state d =
     (if 1 \<in> d then (if 2 \<in> d then yjs_insert_a_b else yjs_insert_a)
      else (if 2 \<in> d then yjs_insert_b else yjs_empty))"

text \<open>
  The codecs at the strings used: the payloads of Alice (one expired in 1970, one valid
  until 2100), of Bob and of Carol; base64 of the four updates. Any other
  string decodes to no bytes, as \<open>%%\<close> does.
\<close>

definition test_payload :: "string \<Rightarrow> jwt_payload option" where
  "test_payload seg =
     (if seg = ''eyJvcGVuSWQiOiJhbGljZSIsImV4cCI6MTAwMH0=''
        then Some \<lparr>openId = ''alice'', exp = 1000\<rparr>
      else if seg = ''eyJvcGVuSWQiOiJhbGljZSIsImV4cCI6NDEwMjQ0NDgwMH0=''
        then Some \<lparr>openId = ''alice'', exp = 4102444800\<rparr>
      else if seg = ''eyJvcGVuSWQiOiJib2IiLCJleHAiOjQxMDI0NDQ4MDB9''
        then Some \<lparr>openId = ''bob'', exp = 4102444800\<rparr>
      else if seg = ''eyJvcGVuSWQiOiJjYXJvbCIsImV4cCI6NDEwMjQ0NDgwMH0=''
        then Some \<lparr>openId = ''carol'', exp = 4102444800\<rparr>
      else None)"

definition test_decode :: "string \<Rightarrow> bytes" where
  "test_decode t =
     (if t = ''AQEBAAQBC3NoYXJlZC10ZXh0AWEA'' then yjs_insert_a
      else if t = ''AQECAAQBC3NoYXJlZC10ZXh0AWIA'' then yjs_insert_b
      else if t = ''AgECAAQBC3NoYXJlZC10ZXh0AWIBAQAEAQtzaGFyZWQtdGV4dAFhAA==''
        then yjs_insert_a_b
      else if t = ''AAA='' then yjs_empty
      else [])"

definition test_encode :: "bytes \<Rightarrow> string" where
  "test_encode b =
     (if b = yjs_insert_a then ''AQEBAAQBC3NoYXJlZC10ZXh0AWEA''
      else if b = yjs_insert_b then ''AQECAAQBC3NoYXJlZC10ZXh0AWIA''
      else if b = yjs_insert_a_b
        then ''AgECAAQBC3NoYXJlZC10ZXh0AWIBAQAEAQtzaGFyZWQtdGV4dAFhAA==''
      else if b = yjs_empty then ''AAA=''
      else [])"

definition test_lib :: "nat set lib" where
  "test_lib =
     \<lparr>newDoc = {},
      applyUpdate = test_apply,
      encodeStateAsUpdate = test_state,
      base64_decode = test_decode,
      base64_encode = test_encode,
      json_payload = test_payload\<rparr>"

text \<open>
  Alice owns documents 1 and 2; Bob holds a grant for document 2 only; Carol holds none.
\<close>

definition test_store :: store where
  "test_store =
     \<lparr>tbl_users =
        [\<lparr>u_id = 5, u_openId = ''alice'', u_name = Some ''Alice''\<rparr>,
         \<lparr>u_id = 7, u_openId = ''bob'', u_name = Some ''Bob''\<rparr>,
         \<lparr>u_id = 9, u_openId = ''carol'', u_name = None\<rparr>],
      tbl_documents =
        [\<lparr>d_id = 1, d_ownerId = 5, d_snapshotState = None, d_snapshotVersion = None\<rparr>,
         \<lparr>d_id = 2, d_ownerId = 5, d_snapshotState = None, d_snapshotVersion = None\<rparr>],
      tbl_documentPermissions =
        [\<lparr>p_documentId = 2, p_userId = 7, p_role = ''editor''\<rparr>],
      tbl_operations = [],
      tbl_sessions = [],
      tbl_offlineQueue = [],
      faults = []\<rparr>"

text \<open>
  Alice's token expired at second 1000. The second token carries her valid payload and
  an empty third part, where the signature would be.
\<close>

definition alice_token :: string where
  "alice_token = ''h.eyJvcGVuSWQiOiJhbGljZSIsImV4cCI6MTAwMH0=.sig''"

definition alice_unsigned_token :: string where
  "alice_unsigned_token = ''h.eyJvcGVuSWQiOiJhbGljZSIsImV4cCI6NDEwMjQ0NDgwMH0=.''"

definition bob_token :: string where
  "bob_token = ''h.eyJvcGVuSWQiOiJib2IiLCJleHAiOjQxMDI0NDQ4MDB9.sig''"

definition carol_token :: string where
  "carol_token = ''h.eyJvcGVuSWQiOiJjYXJvbCIsImV4cCI6NDEwMjQ0NDgwMH0=.sig''"

text \<open>
  The server as \<open>setupWebSocket\<close> leaves it, on a given database; and the server with
  the sockets 1 and 2 connected, where the runs below start.
\<close>

definition init_server :: "store option \<Rightarrow> 'd server" where
  "init_server db =
     \<lparr>rooms = Map.empty, colorIndex = 0, database = db, connected = {},
      channel = (\<lambda>d. []), currentSession = Map.empty\<rparr>"

definition two_sockets :: "store option \<Rightarrow> 'd server" where
  "two_sockets db = on_connection 2 (on_connection 1 (init_server db))"

text \<open>
  An offline queue: client \<open>x\<close> queued the insert of \<open>a\<close> and an entry that decodes to
  no bytes for document 1, and one entry for document 2; client \<open>y\<close> queued the insert of
  \<open>b\<close> for document 1.
\<close>

definition queue_store :: store where
  "queue_store = test_store\<lparr>tbl_offlineQueue :=
     [\<lparr>q_clientId = ''x'', q_documentId = 1,
       q_updateData = ''AQEBAAQBC3NoYXJlZC10ZXh0AWEA'', q_sequenceNumber = 2\<rparr>,
      \<lparr>q_clientId = ''x'', q_documentId = 1, q_updateData = ''%%'', q_sequenceNumber = 1\<rparr>,
      \<lparr>q_clientId = ''y'', q_documentId = 1,
       q_updateData = ''AQECAAQBC3NoYXJlZC10ZXh0AWIA'', q_sequenceNumber = 1\<rparr>,
      \<lparr>q_clientId = ''x'', q_documentId = 2,
       q_updateData = ''AQEBAAQBC3NoYXJlZC10ZXh0AWEA'', q_sequenceNumber = 1\<rparr>]\<rparr>"

text \<open>
  A document whose snapshot at version 3 holds the insert of \<open>a\<close>, with one later
  operation, the insert of \<open>b\<close> at version 4. And the document the specification's read
  path describes: the snapshot, then the document's operations above the snapshot
  version, in ascending order of version.
\<close>

definition snapshot_row :: document_row where
  "snapshot_row =
     \<lparr>d_id = 1, d_ownerId = 5, d_snapshotState = Some ''AQEBAAQBC3NoYXJlZC10ZXh0AWEA'',
      d_snapshotVersion = Some 3\<rparr>"

definition snapshot_store :: store where
  "snapshot_store = test_store\<lparr>
     tbl_documents := [snapshot_row],
     tbl_operations :=
       [\<lparr>o_documentId = 1, o_clientId = ''y'', o_userId = 5,
         o_updateData = ''AQECAAQBC3NoYXJlZC10ZXh0AWIA'',
         o_lamportTime = 4, o_vectorClock = [(''x'', 3), (''y'', 1)], o_version = 4\<rparr>]\<rparr>"

definition spec_reconstruct :: "'d lib \<Rightarrow> store \<Rightarrow> document_row \<Rightarrow> 'd" where
  "spec_reconstruct L st docRow =
     foldl (\<lambda>d row. applied_doc (applyUpdate L d (base64_decode L (o_updateData row))))
       (case d_snapshotState docRow of
          None \<Rightarrow> newDoc L
        | Some state \<Rightarrow> applied_doc (applyUpdate L (newDoc L) (base64_decode L state)))
       (sort_key o_version
          (filter (\<lambda>row. o_documentId row = d_id docRow \<and>
                       (case d_snapshotVersion docRow of None \<Rightarrow> 0 | Some v \<Rightarrow> v) < o_version row)
             (tbl_operations st)))"

text \<open>
  Runs of the server on \<open>test_store\<close>, each handler after the one before has finished.
  Alice joins document 1 on socket 1 as client \<open>x\<close>, sends the insert of \<open>a\<close> and
  disconnects; she joins again on socket 2 as client \<open>z\<close> and sends the insert of \<open>b\<close>.
\<close>

definition alice_joined :: "nat set server" where
  "alice_joined = fst (on_join_room test_lib 1700000000000 1
      \<lparr>jr_documentId = 1, jr_clientId = ''x'', jr_token = Some alice_token\<rparr>
      (two_sockets (Some test_store)))"

definition alice_updated :: "nat set server" where
  "alice_updated = fst (on_update test_lib 1700000000001 1
      \<lparr>um_update = yjs_insert_a, um_clientId = ''x''\<rparr> alice_joined)"

definition alice_left :: "nat set server" where
  "alice_left = fst (on_disconnect test_lib 1700000000002 1 alice_updated)"

definition alice_rejoined :: "nat set server" where
  "alice_rejoined = fst (on_join_room test_lib 1700000000003 2
      \<lparr>jr_documentId = 1, jr_clientId = ''z'', jr_token = Some alice_token\<rparr> alice_left)"

definition alice_updated_again :: "nat set server" where
  "alice_updated_again = fst (on_update test_lib 1700000000004 2
      \<lparr>um_update = yjs_insert_b, um_clientId = ''z''\<rparr> alice_rejoined)"

text \<open>While socket 1 is joined as client \<open>x\<close>, socket 2 joins with the same client id.\<close>

definition duplicate_join :: "nat set server \<times> (nat \<times> event) list" where
  "duplicate_join = on_join_room test_lib 1700000000003 2
      \<lparr>jr_documentId = 1, jr_clientId = ''x'', jr_token = Some alice_token\<rparr> alice_joined"

text \<open>Bob, and Carol, ask for document 1 of Alice.\<close>

definition bob_join :: "nat set server \<times> (nat \<times> event) list" where
  "bob_join = on_join_room test_lib 1700000000000 1
      \<lparr>jr_documentId = 1, jr_clientId = ''b'', jr_token = Some bob_token\<rparr>
      (two_sockets (Some test_store))"

definition carol_join :: "nat set server \<times> (nat \<times> event) list" where
  "carol_join = on_join_room test_lib 1700000000000 1
      \<lparr>jr_documentId = 1, jr_clientId = ''c'', jr_token = Some carol_token\<rparr>
      (two_sockets (Some test_store))"

text \<open>
  Document 2 with two members: Alice, its owner, on socket 1 as client \<open>x\<close> and Bob, who
  holds a grant, on socket 2 as client \<open>b\<close>. The two joins take eight queries.
\<close>

definition pair_joined :: "store \<Rightarrow> nat set server" where
  "pair_joined st =
     fst (on_join_room test_lib 1700000000001 2
       \<lparr>jr_documentId = 2, jr_clientId = ''b'', jr_token = Some bob_token\<rparr>
       (fst (on_join_room test_lib 1700000000000 1
          \<lparr>jr_documentId = 2, jr_clientId = ''x'', jr_token = Some alice_token\<rparr>
          (two_sockets (Some st)))))"

text \<open>A database whose ninth query rejects: the insert of the first update fails.\<close>

definition failing_store :: store where
  "failing_store = test_store\<lparr>faults :=
     [False, False, False, False, False, False, False, False, True]\<rparr>"

text \<open>Bob's update of document 2: the insert of \<open>b\<close>; and an update of no bytes.\<close>

definition bob_message :: update_message where
  "bob_message = \<lparr>um_update = yjs_insert_b, um_clientId = ''b''\<rparr>"

definition empty_message :: update_message where
  "empty_message = \<lparr>um_update = [], um_clientId = ''b''\<rparr>"

text \<open>
  Alice's updates of document 1, one per millisecond after her join, each the insert of
  \<open>a\<close>; and the server after the first \<open>k\<close> of them have been accepted, for \<open>k\<close> up to 100:
  the buffer holds \<open>k\<close> entries and the operations table \<open>k\<close> rows.
\<close>

definition alice_message :: update_message where
  "alice_message = \<lparr>um_update = yjs_insert_a, um_clientId = ''x''\<rparr>"

definition alice_row :: "nat \<Rightarrow> operation_row" where
  "alice_row i =
     \<lparr>o_documentId = 1, o_clientId = ''x'', o_userId = 5,
      o_updateData = ''AQEBAAQBC3NoYXJlZC10ZXh0AWEA'', o_lamportTime = i + 1,
      o_vectorClock = [(''x'', i + 1)], o_version = i\<rparr>"

definition alice_room :: "nat \<Rightarrow> nat set document_room" where
  "alice_room k =
     \<lparr>doc = (if k = 0 then {} else {1}),
      users = [(''x'', \<lparr>us_userId = 5, us_clientId = ''x'', us_documentId = 1,
                        us_color = ''#FF6B6B'', us_lastHeartbeat = 1700000000000\<rparr>)],
      lamportTime = k,
      vectorClocks = (if k = 0 then [] else [(''x'', k)]),
      operationBuffer =
        map (\<lambda>i. \<lparr>bo_update = yjs_insert_a, bo_clientId = ''x'',
                   bo_timestamp = 1700000000001 + i\<rparr>) [0..<k],
      lastSnapshot = \<lparr>version = 0, timestamp = 1700000000000\<rparr>\<rparr>"

definition alice_after :: "nat \<Rightarrow> nat set server" where
  "alice_after k =
     alice_joined\<lparr>rooms := (rooms alice_joined)(1 \<mapsto> alice_room k),
                  database := Some (test_store\<lparr>
                    tbl_sessions := [\<lparr>s_documentId = 1, s_userId = 5, s_clientId = ''x'',
                                      s_userColor = ''#FF6B6B''\<rparr>],
                    tbl_operations := map alice_row [0..<k]\<rparr>)\<rparr>"

definition alice_sends :: "nat \<Rightarrow> nat set server \<Rightarrow> nat set server" where
  "alice_sends i s = fst (on_update test_lib (1700000000001 + i) 1 alice_message s)"

section \<open>Properties\<close>

lemmas db_defs = run_query_def eq_def gt_def truthy_def js_and_def first_row_def
  getUserByOpenId_def getDocument_def checkDocumentAccess_def addOperation_def
  getOperationsSince_def createSession_def deleteSession_def getOfflineQueue_def
  clearOfflineQueue_def

lemmas ws_defs = socket_emit_def socket_to_def io_to_def socket_join_def COLORS_def
  getNextColor_def parseJWT_def getOrCreateRoom_def persistSnapshot_def broadcastUpdate_def
  on_connection_def server_error_def update_failed_def check_access_def admit_def
  on_join_room_def on_update_def on_disconnect_def applied_doc_def

lemmas test_defs = yjs_insert_a_def yjs_insert_b_def yjs_insert_a_b_def yjs_empty_def
  test_structs_def test_apply_def test_state_def test_payload_def test_decode_def
  test_encode_def test_lib_def test_store_def alice_token_def alice_unsigned_token_def
  bob_token_def carol_token_def init_server_def two_sockets_def

lemmas scen_defs = alice_joined_def alice_updated_def alice_left_def alice_rejoined_def
  alice_updated_again_def duplicate_join_def bob_join_def carol_join_def pair_joined_def
  failing_store_def bob_message_def empty_message_def snapshot_row_def snapshot_store_def

subsection \<open>Offline recovery\<close>

lemma recover_loop_counts:
  "recover_loop L ops d r c = (d', r', c') \<Longrightarrow> r' + c' = r + c + length ops"
  by (induction ops arbitrary: d r c) (auto split: applied.splits)

lemma run_query_frame:
  "run_query st = (f, st') \<Longrightarrow> st'\<lparr>faults := faults st\<rparr> = st"
  by (auto simp: run_query_def split: list.splits)

lemma run_query_offlineQueue:
  "run_query st = (f, st') \<Longrightarrow> tbl_offlineQueue st' = tbl_offlineQueue st"
  by (auto simp: run_query_def split: list.splits)

lemma filter_none_rest:
  "filter P xs = [] \<Longrightarrow> filter (\<lambda>x. \<not> P x) xs = xs"
  by (induction xs) (auto split: if_splits)

text \<open>
  The two conditions of the offline queue are joined by \<open>&&\<close>, so both queries select on
  the document alone: the rows of every client for that document are fetched and deleted.
\<close>

lemma getOfflineQueue_Some:
  assumes "getOfflineQueue (Some st) clientId documentId = (Inr fetched, db1)"
  shows "\<exists>st1. db1 = Some st1 \<and> st1\<lparr>faults := faults st\<rparr> = st \<and>
           fetched = sort_key q_sequenceNumber
             (filter (\<lambda>r. q_documentId r = documentId) (tbl_offlineQueue st))"
proof -
  obtain f st' where q: "run_query st = (f, st')" by (cases "run_query st")
  with assms have "db1 = Some st'"
    and "fetched = sort_key q_sequenceNumber
             (filter (\<lambda>r. q_documentId r = documentId) (tbl_offlineQueue st'))"
    by (auto simp: getOfflineQueue_def js_and_def truthy_def eq_def split: bool.splits)
  with run_query_frame [OF q] run_query_offlineQueue [OF q] show ?thesis by simp
qed

lemma clearOfflineQueue_Some:
  assumes "clearOfflineQueue (Some st) clientId documentId = (Inr u, db2)"
  shows "\<exists>st2. db2 = Some st2 \<and>
           st2\<lparr>faults := faults st\<rparr> =
             st\<lparr>tbl_offlineQueue :=
                filter (\<lambda>r. q_documentId r \<noteq> documentId) (tbl_offlineQueue st)\<rparr>"
proof -
  obtain f st' where q: "run_query st = (f, st')" by (cases "run_query st")
  with assms have f: "\<not> f"
    and db2: "db2 = Some (st'\<lparr>tbl_offlineQueue :=
                filter (\<lambda>r. q_documentId r \<noteq> documentId) (tbl_offlineQueue st')\<rparr>)"
    by (auto simp: clearOfflineQueue_def js_and_def truthy_def eq_def split: bool.splits)
  from run_query_frame [OF q] have "st = st'\<lparr>faults := faults st\<rparr>" by simp
  then have "st\<lparr>tbl_offlineQueue :=
                filter (\<lambda>r. q_documentId r \<noteq> documentId) (tbl_offlineQueue st)\<rparr> =
      (st'\<lparr>tbl_offlineQueue :=
                filter (\<lambda>r. q_documentId r \<noteq> documentId) (tbl_offlineQueue st')\<rparr>)
        \<lparr>faults := faults st\<rparr>"
    by (metis (no_types, lifting) run_query_offlineQueue q store.surjective
        store.update_convs(6) store.update_convs(7))
  with db2 show ?thesis by simp
qed

text \<open>
  C10. Whenever \<open>recoverOfflineOperations\<close> settles with a result (no query rejected),
  \<open>recovered\<close> and \<open>conflicts\<close> are the counts of the loop over the entries fetched and
  add up to their number. Without a database nothing was fetched. With a database, the
  database afterwards is the one before with the offline queue cut down to the rows of
  other documents (and the queries' faults consumed): no entry of
  \<open>(clientId, documentId)\<close> is left, and every fetched entry is gone, those counted as
  conflicts included.
\<close>

theorem recoverOfflineOperations_clears_queue:
  assumes "recoverOfflineOperations L db clientId documentId ydoc =
             (Inr (recovered, conflicts), db', ydoc')"
  shows "\<exists>fetched db1.
           getOfflineQueue db clientId documentId = (Inr fetched, db1) \<and>
           recover_loop L fetched ydoc 0 0 = (ydoc', recovered, conflicts) \<and>
           recovered + conflicts = length fetched \<and>
           (db = None \<longrightarrow> db' = None \<and> fetched = []) \<and>
           (\<forall>st. db = Some st \<longrightarrow>
              (\<exists>st'. db' = Some st' \<and>
                 st'\<lparr>faults := faults st\<rparr> =
                   st\<lparr>tbl_offlineQueue :=
                      filter (\<lambda>r. q_documentId r \<noteq> documentId) (tbl_offlineQueue st)\<rparr> \<and>
                 (\<forall>r \<in> set (tbl_offlineQueue st').
                    \<not> (q_clientId r = clientId \<and> q_documentId r = documentId)) \<and>
                 (\<forall>r \<in> set fetched. r \<notin> set (tbl_offlineQueue st'))))"
proof (cases db)
  case None
  with assms show ?thesis
    by (auto simp: recoverOfflineOperations_def getOfflineQueue_def clearOfflineQueue_def)
next
  case (Some st)
  obtain res db1 where g: "getOfflineQueue db clientId documentId = (res, db1)"
    by (cases "getOfflineQueue db clientId documentId")
  with assms obtain fetched where res: "res = Inr fetched"
    by (cases res) (auto simp: recoverOfflineOperations_def)
  from g res Some getOfflineQueue_Some obtain st1 where
    st1: "db1 = Some st1" "st1\<lparr>faults := faults st\<rparr> = st"
      "fetched = sort_key q_sequenceNumber
             (filter (\<lambda>r. q_documentId r = documentId) (tbl_offlineQueue st))"
    by blast
  from st1(2) have q1: "tbl_offlineQueue st1 = tbl_offlineQueue st"
    by (metis store.select_convs(6) store.surjective store.update_convs(7))
  from st1(3) have setf: "set fetched = {r \<in> set (tbl_offlineQueue st). q_documentId r = documentId}"
    by auto
  let ?rest = "filter (\<lambda>r. q_documentId r \<noteq> documentId) (tbl_offlineQueue st)"
  have fin: "\<exists>st'. db' = Some st' \<and>
                 st'\<lparr>faults := faults st\<rparr> = st\<lparr>tbl_offlineQueue := ?rest\<rparr> \<and>
                 recover_loop L fetched ydoc 0 0 = (ydoc', recovered, conflicts)"
  proof (cases "fetched = []")
    case True
    with st1(3) have "filter (\<lambda>r. q_documentId r = documentId) (tbl_offlineQueue st) = []"
      by (metis length_0_conv length_sort)
    then have none: "filter (\<lambda>r. q_documentId r = documentId) (tbl_offlineQueue st) = []" .
    then have "?rest = tbl_offlineQueue st" by (rule filter_none_rest)
    with assms g res st1(1,2) True show ?thesis
      by (auto simp: recoverOfflineOperations_def)
  next
    case False
    obtain d1 r1 c1 where loop: "recover_loop L fetched ydoc 0 0 = (d1, r1, c1)"
      by (cases "recover_loop L fetched ydoc 0 0")
    obtain cres db2 where c: "clearOfflineQueue db1 clientId documentId = (cres, db2)"
      by (cases "clearOfflineQueue db1 clientId documentId")
    from assms g res False loop c obtain u where
      out: "cres = Inr u" "recovered = r1" "conflicts = c1" "db' = db2" "ydoc' = d1"
      by (cases cres) (auto simp: recoverOfflineOperations_def)
    from c out st1 clearOfflineQueue_Some obtain st2 where
      st2: "db2 = Some st2"
        "st2\<lparr>faults := faults st1\<rparr> =
           st1\<lparr>tbl_offlineQueue :=
              filter (\<lambda>r. q_documentId r \<noteq> documentId) (tbl_offlineQueue st1)\<rparr>"
      by blast
    from st2(2) have "(st2\<lparr>faults := faults st1\<rparr>)\<lparr>faults := faults st\<rparr> =
        (st1\<lparr>tbl_offlineQueue := ?rest\<rparr>)\<lparr>faults := faults st\<rparr>"
      using q1 by simp
    then have "st2\<lparr>faults := faults st\<rparr> = (st1\<lparr>faults := faults st\<rparr>)\<lparr>tbl_offlineQueue := ?rest\<rparr>"
      by simp
    with st1(2) have "st2\<lparr>faults := faults st\<rparr> = st\<lparr>tbl_offlineQueue := ?rest\<rparr>"
      by simp
    with out st2 loop show ?thesis by simp
  qed
  then obtain st' where st': "db' = Some st'"
    and eq: "st'\<lparr>faults := faults st\<rparr> = st\<lparr>tbl_offlineQueue := ?rest\<rparr>"
    and loop: "recover_loop L fetched ydoc 0 0 = (ydoc', recovered, conflicts)"
    by blast
  from eq have q': "tbl_offlineQueue st' = ?rest"
    by (metis store.select_convs(6) store.surjective store.update_convs(6) store.update_convs(7))
  from recover_loop_counts [OF loop] have sum: "recovered + conflicts = length fetched"
    by simp
  from g res Some st' eq q' loop sum setf show ?thesis by auto
qed

text \<open>
  On \<open>queue_store\<close>, recovery for client \<open>x\<close> and document 1 fetches three entries (the
  one of client \<open>y\<close> too), applies two, counts one conflict, and leaves only the entry for
  document 2.
\<close>

theorem recoverOfflineOperations_clears_queue_witness:
  "recoverOfflineOperations test_lib (Some queue_store) ''x'' 1 {} =
     (Inr (2, 1),
      Some (queue_store\<lparr>tbl_offlineQueue :=
        [\<lparr>q_clientId = ''x'', q_documentId = 2,
          q_updateData = ''AQEBAAQBC3NoYXJlZC10ZXh0AWEA'', q_sequenceNumber = 1\<rparr>]\<rparr>),
      {1, 2}) \<and>
   (\<exists>fetched db1.
      getOfflineQueue (Some queue_store) ''x'' 1 = (Inr fetched, db1) \<and>
      recover_loop test_lib fetched {} 0 0 = ({1, 2}, 2, 1) \<and>
      (2::nat) + 1 = length fetched)"
proof -
  have h: "recoverOfflineOperations test_lib (Some queue_store) ''x'' 1 {} =
     (Inr (2, 1),
      Some (queue_store\<lparr>tbl_offlineQueue :=
        [\<lparr>q_clientId = ''x'', q_documentId = 2,
          q_updateData = ''AQEBAAQBC3NoYXJlZC10ZXh0AWEA'', q_sequenceNumber = 1\<rparr>]\<rparr>),
      {1, 2})"
    by (auto simp add: recoverOfflineOperations_def queue_store_def db_defs test_defs Let_def)
  from recoverOfflineOperations_clears_queue [OF h]
  have "\<exists>fetched db1.
      getOfflineQueue (Some queue_store) ''x'' 1 = (Inr fetched, db1) \<and>
      recover_loop test_lib fetched {} 0 0 = ({1, 2}, 2, 1) \<and>
      (2::nat) + 1 = length fetched"
    by (elim exE conjE, intro exI conjI) assumption+
  with h show ?thesis by (rule conjI)
qed

subsection \<open>Joining a room: the token\<close>








subsection \<open>Joining a room: access\<close>

text \<open>The document asked for has no part in the answer of \<open>checkDocumentAccess\<close>.\<close>

lemma checkDocumentAccess_ignores_documentId:
  "checkDocumentAccess db documentId userId = checkDocumentAccess db documentId' userId"
  unfolding checkDocumentAccess_def js_and_def truthy_def by simp

text \<open>
  C1. The claim fails on the code: \<open>checkDocumentAccess\<close> for document 1 and Bob returns
  Bob's grant for document 2, and Bob, who is neither the owner of document 1 nor holds a
  grant for it, is admitted to it.
\<close>

theorem grant_for_another_document_admits:
  "checkDocumentAccess (Some test_store) 1 7 =
     (Inr (Some \<lparr>p_documentId = 2, p_userId = 7, p_role = ''editor''\<rparr>), Some test_store) \<and>
   snd bob_join = [(1, RoomJoined 1 ''b'' [(''b'', 7, ''#FF6B6B'')] [0, 0] 0)] \<and>
   map_option (map fst \<circ> users) (rooms (fst bob_join) 1) = Some [''b'']"
  by (simp add: scen_defs db_defs ws_defs test_defs Let_def)

text \<open>
  C6. The claim fails on the code: Carol's join of document 1 is answered with
  \<open>ACCESS_DENIED\<close>, no session is bound and no socket joins the channel, yet a room for
  document 1 with no members stays in the registry.
\<close>

theorem denied_join_leaves_empty_room:
  "snd carol_join = [(1, ErrorEv ''Access denied'' ''ACCESS_DENIED'')] \<and>
   map_option users (rooms (fst carol_join) 1) = Some [] \<and>
   currentSession (fst carol_join) 1 = None \<and>
   channel (fst carol_join) 1 = []"
  by (simp add: scen_defs db_defs ws_defs test_defs Let_def)

subsection \<open>Joining a room: a client id that is already a member\<close>

text \<open>
  No branch of the join emits \<open>user_left\<close>; a join that answers \<open>room_joined\<close> went
  through the room that \<open>getOrCreateRoom\<close> returned, for the user that
  \<open>getUserByOpenId\<close> found under the \<open>openId\<close> of the token.
\<close>

lemma admit_no_UserLeft:
  "(t, ev) \<in> set (snd (admit L now sid message user room s)) \<Longrightarrow> ev \<noteq> UserLeft c u"
  by (auto simp: admit_def socket_emit_def socket_to_def server_error_def Let_def
      split: prod.splits sum.splits)

lemma getOrCreateRoom_frame:
  assumes "getOrCreateRoom L now documentId s = (Inr (Some room), s2)"
  shows "rooms s2 documentId = Some room \<and>
         (\<forall>r. rooms s documentId = Some r \<longrightarrow> r = room) \<and>
         (\<forall>k. k \<noteq> documentId \<longrightarrow> rooms s2 k = rooms s k) \<and>
         channel s2 = channel s \<and> currentSession s2 = currentSession s \<and>
         colorIndex s2 = colorIndex s"
  using assms
  by (auto simp: getOrCreateRoom_def Let_def split: option.splits prod.splits sum.splits)

lemma join_admitted:
  assumes "on_join_room L now sid message s = (s', out)"
    and "(sid, RoomJoined d c us ds lt) \<in> set out"
  shows "\<exists>payload user room s2 db db'.
           parseJWT L (jr_token message) = Some payload \<and>
           fst (getUserByOpenId (database s) (openId payload)) = Inr (Some user) \<and>
           getOrCreateRoom L now (jr_documentId message) (s\<lparr>database := db\<rparr>) =
             (Inr (Some room), s2) \<and>
           admit L now sid message user room (s2\<lparr>database := db'\<rparr>) = (s', out)"
  using assms
  by (auto simp: on_join_room_def socket_emit_def server_error_def
      split: option.splits prod.splits sum.splits bool.splits)

lemma admit_joined:
  assumes "admit L now sid message user room s = (s', out)"
    and "(sid, RoomJoined d c us ds lt) \<in> set out"
  shows "rooms s' (jr_documentId message) =
           Some (room\<lparr>users := AList.update (jr_clientId message)
              \<lparr>us_userId = u_id user, us_clientId = jr_clientId message,
               us_documentId = jr_documentId message,
               us_color = COLORS ! (colorIndex s mod length COLORS),
               us_lastHeartbeat = now\<rparr> (users room)\<rparr>) \<and>
         currentSession s' sid =
           Some \<lparr>us_userId = u_id user, us_clientId = jr_clientId message,
                 us_documentId = jr_documentId message,
                 us_color = COLORS ! (colorIndex s mod length COLORS),
                 us_lastHeartbeat = now\<rparr> \<and>
         out =
           (sid, RoomJoined (jr_documentId message) (jr_clientId message)
              (map (\<lambda>u. (us_clientId u, us_userId u, us_color u))
                 (map snd (AList.update (jr_clientId message)
                    \<lparr>us_userId = u_id user, us_clientId = jr_clientId message,
                     us_documentId = jr_documentId message,
                     us_color = COLORS ! (colorIndex s mod length COLORS),
                     us_lastHeartbeat = now\<rparr> (users room))))
              (encodeStateAsUpdate L (doc room)) (lamportTime room)) #
           map (\<lambda>t. (t, UserJoined (u_id user) (jr_clientId message) (u_name user)
                          (COLORS ! (colorIndex s mod length COLORS))))
             (filter (\<lambda>t. t \<noteq> sid) (channel s (jr_documentId message)))"
  using assms
  by (auto simp: admit_def socket_emit_def socket_to_def socket_join_def server_error_def
      getNextColor_def Let_def
      split: prod.splits sum.splits)

text \<open>
  C8 (as amended). When an admitted \<open>join_room\<close> carries a client id that is already a
  key of the room's \<open>users\<close>, the entry is replaced in place by the new session: the
  user found under the token's \<open>openId\<close>, the client id, the document, the next colour
  and the time of the join. The keys of \<open>users\<close> are the same list as before, so the
  client id still appears once. The joining socket is sent \<open>room_joined\<close>, every other
  socket subscribed to the document's channel is sent one \<open>user_joined\<close> with the new
  session's user id, client id, name and colour, and nothing else is emitted: no
  \<open>user_left\<close>.
\<close>

theorem duplicate_clientId_replaced_without_user_left:
  assumes room: "rooms s (jr_documentId message) = Some room"
    and present: "jr_clientId message \<in> fst ` set (users room)"
    and dist: "distinct (map fst (users room))"
    and res: "on_join_room L now sid message s = (s', out)"
    and admitted: "(sid, RoomJoined d c us ds lt) \<in> set out"
  shows "\<exists>payload user session room'.
           parseJWT L (jr_token message) = Some payload \<and>
           fst (getUserByOpenId (database s) (openId payload)) = Inr (Some user) \<and>
           session = \<lparr>us_userId = u_id user, us_clientId = jr_clientId message,
                      us_documentId = jr_documentId message,
                      us_color = COLORS ! (colorIndex s mod length COLORS),
                      us_lastHeartbeat = now\<rparr> \<and>
           room' = room\<lparr>users := AList.update (jr_clientId message) session (users room)\<rparr> \<and>
           rooms s' (jr_documentId message) = Some room' \<and>
           map fst (users room') = map fst (users room) \<and>
           distinct (map fst (users room')) \<and>
           map_of (users room') (jr_clientId message) = Some session \<and>
           currentSession s' sid = Some session \<and>
           out =
             (sid, RoomJoined (jr_documentId message) (jr_clientId message)
                (map (\<lambda>u. (us_clientId u, us_userId u, us_color u)) (map snd (users room')))
                (encodeStateAsUpdate L (doc room)) (lamportTime room)) #
             map (\<lambda>t. (t, UserJoined (us_userId session) (us_clientId session) (u_name user)
                            (us_color session)))
               (filter (\<lambda>t. t \<noteq> sid) (channel s (jr_documentId message))) \<and>
           (\<forall>t ev. (t, ev) \<in> set out \<longrightarrow> (\<forall>c' u. ev \<noteq> UserLeft c' u))"
proof -
  from join_admitted [OF res admitted] obtain payload user room0 s2 db db' where
    tok: "parseJWT L (jr_token message) = Some payload"
    and usr: "fst (getUserByOpenId (database s) (openId payload)) = Inr (Some user)"
    and g: "getOrCreateRoom L now (jr_documentId message) (s\<lparr>database := db\<rparr>) =
          (Inr (Some room0), s2)"
    and a: "admit L now sid message user room0 (s2\<lparr>database := db'\<rparr>) = (s', out)"
    by blast
  from getOrCreateRoom_frame [OF g] room have r0: "room0 = room"
    and ch: "channel s2 = channel s" and ci: "colorIndex s2 = colorIndex s"
    by auto
  let ?session = "\<lparr>us_userId = u_id user, us_clientId = jr_clientId message,
                      us_documentId = jr_documentId message,
                      us_color = COLORS ! (colorIndex s mod length COLORS),
                      us_lastHeartbeat = now\<rparr>"
  let ?room' = "room\<lparr>users := AList.update (jr_clientId message) ?session (users room)\<rparr>"
  from admit_joined [OF a admitted] r0 ch ci have
    s: "rooms s' (jr_documentId message) = Some ?room'"
      "currentSession s' sid = Some ?session"
    and o: "out =
             (sid, RoomJoined (jr_documentId message) (jr_clientId message)
                (map (\<lambda>u. (us_clientId u, us_userId u, us_color u)) (map snd (users ?room')))
                (encodeStateAsUpdate L (doc room)) (lamportTime room)) #
             map (\<lambda>t. (t, UserJoined (us_userId ?session) (us_clientId ?session) (u_name user)
                            (us_color ?session)))
               (filter (\<lambda>t. t \<noteq> sid) (channel s (jr_documentId message)))"
    by simp_all
  have keys: "map fst (users ?room') = map fst (users room)"
    using present by (simp add: update_keys)
  have look: "map_of (users ?room') (jr_clientId message) = Some ?session"
    by (simp add: update_conv')
  have noleft: "\<forall>t ev. (t, ev) \<in> set out \<longrightarrow> (\<forall>c' u. ev \<noteq> UserLeft c' u)"
    using admit_no_UserLeft [of _ _ L now sid message user room0 "s2\<lparr>database := db'\<rparr>"] a
    by auto
  from dist keys have dist': "distinct (map fst (users ?room'))" by simp
  show ?thesis
    apply (rule exI [of _ payload], rule exI [of _ user])
    apply (rule exI [of _ ?session], rule exI [of _ ?room'])
    using tok usr s keys dist' look o noleft
    apply (intro conjI)
              apply (assumption | rule refl)+
    done
qed

text \<open>
  Socket 2 joins document 1 as client \<open>x\<close> while socket 1 is joined under that id.
\<close>

theorem duplicate_clientId_replaced_without_user_left_witness:
  "map_option (map fst \<circ> users) (rooms alice_joined 1) = Some [''x''] \<and>
   channel alice_joined 1 = [1] \<and>
   snd duplicate_join =
     [(2, RoomJoined 1 ''x'' [(''x'', 5, ''#4ECDC4'')] [0, 0] 0),
      (1, UserJoined 5 ''x'' (Some ''Alice'') ''#4ECDC4'')] \<and>
   (\<exists>room' session.
      rooms (fst duplicate_join) 1 = Some room' \<and> map fst (users room') = [''x''] \<and>
      map_of (users room') ''x'' = Some session \<and>
      currentSession (fst duplicate_join) 2 = Some session \<and>
      us_lastHeartbeat session = 1700000000003)"
proof -
  let ?m = "\<lparr>jr_documentId = 1, jr_clientId = ''x'', jr_token = Some alice_token\<rparr>"
  have "\<exists>R. rooms alice_joined 1 = Some R \<and> map fst (users R) = [''x''] \<and>
      channel alice_joined 1 = [1]"
    by (simp add: scen_defs db_defs ws_defs test_defs Let_def)
  then obtain R where R0: "rooms alice_joined 1 = Some R"
    and keys: "map fst (users R) = [''x'']" and ch: "channel alice_joined 1 = [1]"
    by auto
  from R0 have R: "rooms alice_joined (jr_documentId ?m) = Some R" by simp
  have "''x'' \<in> set (map fst (users R))" unfolding keys by simp
  then have present: "jr_clientId ?m \<in> fst ` set (users R)" by simp
  from keys have dist: "distinct (map fst (users R))" by simp
  have res: "on_join_room test_lib 1700000000003 2 ?m alice_joined =
      (fst duplicate_join, snd duplicate_join)"
    by (simp add: duplicate_join_def)
  have out: "snd duplicate_join =
     [(2, RoomJoined 1 ''x'' [(''x'', 5, ''#4ECDC4'')] [0, 0] 0),
      (1, UserJoined 5 ''x'' (Some ''Alice'') ''#4ECDC4'')]"
    by (simp add: scen_defs db_defs ws_defs test_defs Let_def)
  then have admitted: "(2, RoomJoined 1 ''x'' [(''x'', 5, ''#4ECDC4'')] [0, 0] 0) \<in>
      set (snd duplicate_join)"
    by simp
  from duplicate_clientId_replaced_without_user_left [OF R present dist res admitted]
  obtain room' session where
    "rooms (fst duplicate_join) (jr_documentId ?m) = Some room'"
    "map fst (users room') = map fst (users R)"
    "map_of (users room') (jr_clientId ?m) = Some session"
    "currentSession (fst duplicate_join) 2 = Some session"
    "us_lastHeartbeat session = 1700000000003"
    by (elim exE conjE) simp
  with keys have "\<exists>room' session.
      rooms (fst duplicate_join) 1 = Some room' \<and> map fst (users room') = [''x''] \<and>
      map_of (users room') ''x'' = Some session \<and>
      currentSession (fst duplicate_join) 2 = Some session \<and>
      us_lastHeartbeat session = 1700000000003"
    by auto
  with R0 keys ch out show ?thesis by simp
qed

text \<open>
  C8 as stated fails: the second join under client id \<open>x\<close> emits \<open>room_joined\<close> to the
  new socket and \<open>user_joined\<close> to the old one, and no \<open>user_left\<close>.
\<close>

theorem duplicate_join_emits_no_user_left:
  "map_option (map fst \<circ> users) (rooms alice_joined 1) = Some [''x''] \<and>
   channel alice_joined 1 = [1] \<and>
   snd duplicate_join =
     [(2, RoomJoined 1 ''x'' [(''x'', 5, ''#4ECDC4'')] [0, 0] 0),
      (1, UserJoined 5 ''x'' (Some ''Alice'') ''#4ECDC4'')]"
  by (simp add: scen_defs db_defs ws_defs test_defs Let_def)

text \<open>
  The entry of a client id belongs to whoever joined last under it: when socket 1 of the
  run above disconnects, it removes the entry of socket 2, and the room is dropped while
  socket 2 is still joined.
\<close>

lemma room_dropped_under_joined_socket:
  "rooms (fst (on_disconnect test_lib 1700000000004 1 (fst duplicate_join))) 1 = None \<and>
   channel (fst (on_disconnect test_lib 1700000000004 1 (fst duplicate_join))) 1 = [2] \<and>
   map_option us_documentId
     (currentSession (fst (on_disconnect test_lib 1700000000004 1 (fst duplicate_join))) 2) =
     Some 1"
  by (simp add: scen_defs db_defs ws_defs test_defs Let_def)

subsection \<open>Rooms from the store, and checkpoints\<close>

lemma first_row_filter:
  assumes "first_row (take n (filter P xs)) = Some r"
  shows "r \<in> set xs \<and> P r"
proof -
  from assms obtain ys where "take n (filter P xs) = r # ys"
    by (cases "take n (filter P xs)") (auto simp: first_row_def)
  then have "r \<in> set (take n (filter P xs))" by simp
  then have "r \<in> set (filter P xs)" by (rule in_set_takeD)
  then show ?thesis by simp
qed

lemma run_query_documents:
  "run_query st = (f, st') \<Longrightarrow> tbl_documents st' = tbl_documents st"
  by (auto simp: run_query_def split: list.splits)

lemma run_query_set_operations:
  "run_query (st\<lparr>tbl_operations := ops\<rparr>) =
     (fst (run_query st), (snd (run_query st))\<lparr>tbl_operations := ops\<rparr>)"
  by (auto simp: run_query_def split: list.splits)

lemma getDocument_ignores_operations:
  "fst (getDocument (Some (st\<lparr>tbl_operations := ops\<rparr>)) documentId) =
   fst (getDocument (Some st) documentId)"
  by (simp add: getDocument_def run_query_set_operations split: prod.splits bool.splits)

text \<open>
  Whatever the engine: on a registry miss for a document that exists, \<open>getOrCreateRoom\<close>
  registers a room whose document is the fresh document with the stored snapshot applied
  (the fresh document itself when the snapshot is absent or empty), with no members, both
  clocks at zero, an empty buffer and the stored snapshot version (0 when absent). No
  operation row is read: whatever the operations table holds, the room is the same.
\<close>

lemma getOrCreateRoom_loads_snapshot_only:
  assumes miss: "rooms s documentId = None"
    and db: "database s = Some st"
    and found: "getOrCreateRoom L now documentId s = (Inr (Some room), s')"
  shows "(\<exists>docRow \<in> set (tbl_documents st).
            d_id docRow = documentId \<and>
            doc room =
              (case d_snapshotState docRow of
                 None \<Rightarrow> newDoc L
               | Some state \<Rightarrow>
                   if state = [] then newDoc L
                   else applied_doc (applyUpdate L (newDoc L) (base64_decode L state))) \<and>
            version (lastSnapshot room) =
              (case d_snapshotVersion docRow of None \<Rightarrow> 0 | Some v \<Rightarrow> v)) \<and>
         users room = [] \<and> lamportTime room = 0 \<and> vectorClocks room = [] \<and>
         operationBuffer room = [] \<and>
         rooms s' documentId = Some room \<and>
         (\<forall>ops. fst (getOrCreateRoom L now documentId
                      (s\<lparr>database := Some (st\<lparr>tbl_operations := ops\<rparr>)\<rparr>)) =
                Inr (Some room))"
proof -
  obtain r db1 where g: "getDocument (Some st) documentId = (r, db1)"
    by (cases "getDocument (Some st) documentId")
  with miss db found obtain docRow where r: "r = Inr (Some docRow)"
    by (cases r) (auto simp: getOrCreateRoom_def split: option.splits)
  from g r have "docRow \<in> set (tbl_documents st) \<and> d_id docRow = documentId"
    by (auto simp: getDocument_def eq_def dest!: first_row_filter run_query_documents
        split: prod.splits bool.splits)
  moreover from miss db found g r have room:
    "room = \<lparr>doc = (case d_snapshotState docRow of
                 None \<Rightarrow> newDoc L
               | Some state \<Rightarrow>
                   if state = [] then newDoc L
                   else applied_doc (applyUpdate L (newDoc L) (base64_decode L state))),
             users = [], lamportTime = 0, vectorClocks = [], operationBuffer = [],
             lastSnapshot = \<lparr>version = (case d_snapshotVersion docRow of None \<Rightarrow> 0 | Some v \<Rightarrow> v),
                             timestamp = now\<rparr>\<rparr>"
    and s': "rooms s' documentId = Some room"
    by (auto simp: getOrCreateRoom_def Let_def)
  moreover have "fst (getOrCreateRoom L now documentId
                      (s\<lparr>database := Some (st\<lparr>tbl_operations := ops\<rparr>)\<rparr>)) =
                Inr (Some room)" for ops
  proof -
    from getDocument_ignores_operations [where st = st and ops = ops and documentId = documentId] g r
    obtain db2 where "getDocument (Some (st\<lparr>tbl_operations := ops\<rparr>)) documentId =
        (Inr (Some docRow), db2)"
      by (cases "getDocument (Some (st\<lparr>tbl_operations := ops\<rparr>)) documentId") auto
    with miss room show ?thesis
      by (simp add: getOrCreateRoom_def Let_def)
  qed
  ultimately show ?thesis by auto
qed

text \<open>
  C3. The claim fails on the code: the snapshot of document 1 holds the insert of \<open>a\<close> at
  version 3, the operations table holds the insert of \<open>b\<close> at version 4, which
  \<open>getOperationsSince\<close> returns for that document and version; the room that
  \<open>getOrCreateRoom\<close> builds holds \<open>a\<close> only, where the snapshot followed by the later
  operations holds \<open>a\<close> and \<open>b\<close>.
\<close>

theorem operations_not_replayed:
  "(case fst (getOrCreateRoom test_lib 1700000000000 1 (two_sockets (Some snapshot_store))) of
      Inr (Some room) \<Rightarrow> doc room = {1} \<and> version (lastSnapshot room) = 3
    | _ \<Rightarrow> False) \<and>
   (case fst (getOperationsSince (Some snapshot_store) 1 3) of
      Inr rows \<Rightarrow> map o_version rows = [4]
    | Inl e \<Rightarrow> False) \<and>
   spec_reconstruct test_lib snapshot_store snapshot_row = {1, 2}"
  by (auto simp add: scen_defs spec_reconstruct_def db_defs ws_defs test_defs Let_def)

text \<open>\<open>persistSnapshot\<close> hands the database back as it got it.\<close>

lemma persistSnapshot_database:
  "snd (persistSnapshot L now db documentId room) = db"
  by (simp add: persistSnapshot_def Let_def)

text \<open>
  C4. The claim fails on the code: when Alice, the last member, leaves the room whose
  document holds her insert of \<open>a\<close>, the room is dropped and the checkpoint leaves the
  documents table as it was, with no snapshot state and no snapshot version.
\<close>

theorem checkpoint_writes_nothing:
  "map_option doc (rooms alice_updated 1) = Some {1} \<and>
   rooms alice_left 1 = None \<and>
   map_option tbl_documents (database alice_left) =
     Some [\<lparr>d_id = 1, d_ownerId = 5, d_snapshotState = None, d_snapshotVersion = None\<rparr>,
           \<lparr>d_id = 2, d_ownerId = 5, d_snapshotState = None, d_snapshotVersion = None\<rparr>]"
  by (simp add: scen_defs db_defs ws_defs test_defs Let_def)

subsection \<open>Updates: broadcast and rejection\<close>

lemma run_query_operations:
  "run_query st = (f, st') \<Longrightarrow> tbl_operations st' = tbl_operations st"
  by (auto simp: run_query_def split: list.splits)

text \<open>
  What the handler of \<open>update\<close> does with an update that the engine merges and the
  database stores.
\<close>

lemma on_update_accepted:
  assumes cs: "currentSession s sid = Some cs"
    and room: "rooms s (us_documentId cs) = Some room"
    and applied: "applyUpdate L (doc room) (um_update message) = Applied d"
    and db: "database s = Some st"
    and ok: "\<not> fst (run_query st)"
  shows "on_update L now sid message s =
           broadcastUpdate L now (us_documentId cs) (um_update message) (um_clientId message)
             (lamportTime room + 1)
             (s\<lparr>rooms := (rooms s)(us_documentId cs \<mapsto>
                   room\<lparr>doc := d, lamportTime := lamportTime room + 1,
                        vectorClocks := AList.update (um_clientId message)
                          ((case map_of (vectorClocks room) (um_clientId message) of
                              None \<Rightarrow> 0 | Some n \<Rightarrow> n) + 1)
                          (vectorClocks room)\<rparr>),
                database := Some ((snd (run_query st))\<lparr>tbl_operations := tbl_operations st @
                   [\<lparr>o_documentId = us_documentId cs,
                     o_clientId = um_clientId message,
                     o_userId = us_userId cs,
                     o_updateData = base64_encode L (um_update message),
                     o_lamportTime = lamportTime room + 1,
                     o_vectorClock = AList.update (um_clientId message)
                          ((case map_of (vectorClocks room) (um_clientId message) of
                              None \<Rightarrow> 0 | Some n \<Rightarrow> n) + 1)
                          (vectorClocks room),
                     o_version = version (lastSnapshot room) +
                                 length (operationBuffer room)\<rparr>]\<rparr>)\<rparr>)"
  using assms
  by (cases "run_query st")
     (auto simp: on_update_def addOperation_def Let_def dest: run_query_operations
       split: prod.splits)

text \<open>Document 2 after the joins of Alice and Bob, on a database that works and on one
  whose next query rejects.\<close>

lemma pair_joined_state:
  "\<exists>cs R st. currentSession (pair_joined test_store) 2 = Some cs \<and>
      us_documentId cs = 2 \<and> us_userId cs = 7 \<and> us_clientId cs = ''b'' \<and>
      rooms (pair_joined test_store) 2 = Some R \<and> doc R = {} \<and> lamportTime R = 0 \<and>
      vectorClocks R = [] \<and> operationBuffer R = [] \<and> version (lastSnapshot R) = 0 \<and>
      map fst (users R) = [''x'', ''b''] \<and>
      database (pair_joined test_store) = Some st \<and> faults st = [] \<and>
      tbl_operations st = [] \<and>
      channel (pair_joined test_store) 2 = [1, 2]"
  by (simp add: scen_defs db_defs ws_defs test_defs Let_def)

lemma pair_joined_failing_state:
  "\<exists>cs R st. currentSession (pair_joined failing_store) 2 = Some cs \<and>
      us_documentId cs = 2 \<and>
      rooms (pair_joined failing_store) 2 = Some R \<and> doc R = {} \<and> lamportTime R = 0 \<and>
      vectorClocks R = [] \<and> operationBuffer R = [] \<and>
      database (pair_joined failing_store) = Some st \<and> faults st = [True] \<and>
      tbl_operations st = [] \<and>
      channel (pair_joined failing_store) 2 = [1, 2]"
  by (simp add: scen_defs db_defs ws_defs test_defs Let_def)

text \<open>
  C9 (as amended). For every accepted update (the engine merges it and the insert of the
  operation succeeds), the server emits \<open>update\<close> with the update, the client id, the
  new Lamport time and the timestamp to every socket subscribed to the document's
  channel, without excluding the origin: an origin that is subscribed to the channel is
  sent its own update.
\<close>

theorem update_broadcast_reaches_origin:
  assumes cs: "currentSession s sid = Some cs"
    and room: "rooms s (us_documentId cs) = Some room"
    and applied: "applyUpdate L (doc room) (um_update message) = Applied d"
    and db: "database s = Some st"
    and ok: "\<not> fst (run_query st)"
  shows "snd (on_update L now sid message s) =
           map (\<lambda>t. (t, UpdateEv (um_update message) (um_clientId message)
                          (lamportTime room + 1) now))
             (channel s (us_documentId cs)) \<and>
         (sid \<in> set (channel s (us_documentId cs)) \<longrightarrow>
            (sid, UpdateEv (um_update message) (um_clientId message)
                    (lamportTime room + 1) now) \<in> set (snd (on_update L now sid message s)))"
proof -
  have "snd (on_update L now sid message s) =
           map (\<lambda>t. (t, UpdateEv (um_update message) (um_clientId message)
                          (lamportTime room + 1) now))
             (channel s (us_documentId cs))"
    unfolding on_update_accepted [OF assms]
    by (simp add: broadcastUpdate_def io_to_def persistSnapshot_def Let_def)
  then show ?thesis by auto
qed

text \<open>
  Bob, on socket 2 with Alice on socket 1, sends his insert of \<open>b\<close>: the broadcast goes to
  socket 1 and to socket 2 itself.
\<close>

theorem update_broadcast_reaches_origin_witness:
  "channel (pair_joined test_store) 2 = [1, 2] \<and>
   snd (on_update test_lib 1700000000002 2 bob_message (pair_joined test_store)) =
     [(1, UpdateEv yjs_insert_b ''b'' 1 1700000000002),
      (2, UpdateEv yjs_insert_b ''b'' 1 1700000000002)]"
proof -
  from pair_joined_state obtain cs R st where
    cs: "currentSession (pair_joined test_store) 2 = Some cs" and d: "us_documentId cs = 2"
    and R: "rooms (pair_joined test_store) 2 = Some R" and doc: "doc R = {}"
    and lt: "lamportTime R = 0"
    and db: "database (pair_joined test_store) = Some st" and f: "faults st = []"
    and ch: "channel (pair_joined test_store) 2 = [1, 2]"
    by (elim exE conjE)
  from R d have room: "rooms (pair_joined test_store) (us_documentId cs) = Some R" by simp
  from doc have applied: "applyUpdate test_lib (doc R) (um_update bob_message) = Applied {2}"
    by (simp add: bob_message_def test_defs)
  from f have ok: "\<not> fst (run_query st)" by (simp add: run_query_def)
  from update_broadcast_reaches_origin [OF cs room applied db ok, of 1700000000002]
    d lt ch show ?thesis
    by (simp add: bob_message_def)
qed

text \<open>
  C9 as stated fails: socket 2, the origin, is sent its own update.
\<close>

theorem origin_receives_own_update:
  "map_option us_clientId (currentSession (pair_joined test_store) 2) = Some ''b'' \<and>
   channel (pair_joined test_store) 2 = [1, 2] \<and>
   map_option doc
     (rooms (fst (on_update test_lib 1700000000002 2 bob_message (pair_joined test_store))) 2) =
     Some {2} \<and>
   snd (on_update test_lib 1700000000002 2 bob_message (pair_joined test_store)) =
     [(1, UpdateEv yjs_insert_b ''b'' 1 1700000000002),
      (2, UpdateEv yjs_insert_b ''b'' 1 1700000000002)]"
  by (simp add: scen_defs db_defs ws_defs test_defs Let_def)

text \<open>
  C7 (as amended). An update is rejected when the engine throws on its bytes, or when the
  engine merges it and the insert of the operation fails (no database, or the query
  rejects). In both cases the error \<open>UPDATE_FAILED\<close> to the sender is all the server
  emits, so no peer receives a broadcast, and the state afterwards differs from the state
  before in the sender's room only (and in the consumed query): its buffer of operations,
  its members and its snapshot marker are untouched. When the engine threw, the Lamport
  clock and the vector clocks are untouched too and the document is the one the engine
  left. When the insert failed, nothing is stored, the document is the merged one, the
  Lamport clock is one higher and so is the vector clock entry of the message's client.
\<close>

theorem rejected_update_answers_sender_only:
  assumes cs: "currentSession s sid = Some cs"
    and room: "rooms s (us_documentId cs) = Some room"
  shows "(\<forall>d. applyUpdate L (doc room) (um_update message) = Threw d \<longrightarrow>
            on_update L now sid message s =
              (s\<lparr>rooms := (rooms s)(us_documentId cs \<mapsto> room\<lparr>doc := d\<rparr>)\<rparr>,
               [(sid, update_failed)])) \<and>
         (\<forall>d. applyUpdate L (doc room) (um_update message) = Applied d \<longrightarrow>
            (database s = None \<or> (\<exists>st. database s = Some st \<and> fst (run_query st))) \<longrightarrow>
            on_update L now sid message s =
              (s\<lparr>rooms := (rooms s)(us_documentId cs \<mapsto>
                    room\<lparr>doc := d, lamportTime := lamportTime room + 1,
                         vectorClocks := AList.update (um_clientId message)
                           ((case map_of (vectorClocks room) (um_clientId message) of
                               None \<Rightarrow> 0 | Some n \<Rightarrow> n) + 1)
                           (vectorClocks room)\<rparr>),
                 database := map_option (\<lambda>st. snd (run_query st)) (database s)\<rparr>,
               [(sid, update_failed)]) \<and>
            map_option tbl_operations
              (map_option (\<lambda>st. snd (run_query st)) (database s)) =
            map_option tbl_operations (database s))"
proof (intro conjI allI impI)
  fix d assume "applyUpdate L (doc room) (um_update message) = Threw d"
  with cs room show "on_update L now sid message s =
              (s\<lparr>rooms := (rooms s)(us_documentId cs \<mapsto> room\<lparr>doc := d\<rparr>)\<rparr>,
               [(sid, update_failed)])"
    by (simp add: on_update_def socket_emit_def)
next
  fix d
  assume a: "applyUpdate L (doc room) (um_update message) = Applied d"
    and f: "database s = None \<or> (\<exists>st. database s = Some st \<and> fst (run_query st))"
  from f show "on_update L now sid message s =
              (s\<lparr>rooms := (rooms s)(us_documentId cs \<mapsto>
                    room\<lparr>doc := d, lamportTime := lamportTime room + 1,
                         vectorClocks := AList.update (um_clientId message)
                           ((case map_of (vectorClocks room) (um_clientId message) of
                               None \<Rightarrow> 0 | Some n \<Rightarrow> n) + 1)
                           (vectorClocks room)\<rparr>),
                 database := map_option (\<lambda>st. snd (run_query st)) (database s)\<rparr>,
               [(sid, update_failed)])"
  proof
    assume "database s = None"
    with cs room a show ?thesis
      by (simp add: on_update_def addOperation_def socket_emit_def Let_def)
  next
    assume "\<exists>st. database s = Some st \<and> fst (run_query st)"
    then obtain st where st: "database s = Some st" "fst (run_query st)" by blast
    then obtain st' where "run_query st = (True, st')" by (cases "run_query st") auto
    with cs room a st show ?thesis
      by (simp add: on_update_def addOperation_def socket_emit_def Let_def)
  qed
next
  fix d
  show "map_option tbl_operations
              (map_option (\<lambda>st. snd (run_query st)) (database s)) =
            map_option tbl_operations (database s)"
  proof (cases "database s")
    case None
    then show ?thesis by simp
  next
    case (Some st)
    obtain f st' where q: "run_query st = (f, st')" by (cases "run_query st")
    with Some run_query_operations [OF q] show ?thesis by simp
  qed
qed

text \<open>
  With Alice on socket 1 and Bob on socket 2 in document 2: Bob's update of no bytes makes
  the engine throw, and his insert of \<open>b\<close> meets a rejecting database. Each time socket 2
  alone is answered; the first time the room is as before, the second time it holds the
  insert at Lamport time 1.
\<close>

theorem rejected_update_answers_sender_only_witness:
  "channel (pair_joined test_store) 2 = [1, 2] \<and>
   snd (on_update test_lib 1700000000002 2 empty_message (pair_joined test_store)) =
     [(2, update_failed)] \<and>
   rooms (fst (on_update test_lib 1700000000002 2 empty_message (pair_joined test_store))) 2 =
     rooms (pair_joined test_store) 2 \<and>
   channel (pair_joined failing_store) 2 = [1, 2] \<and>
   snd (on_update test_lib 1700000000002 2 bob_message (pair_joined failing_store)) =
     [(2, update_failed)] \<and>
   map_option doc
     (rooms (fst (on_update test_lib 1700000000002 2 bob_message (pair_joined failing_store)))
        2) = Some {2} \<and>
   map_option lamportTime
     (rooms (fst (on_update test_lib 1700000000002 2 bob_message (pair_joined failing_store)))
        2) = Some 1"
proof -
  from pair_joined_state obtain cs R where
    cs: "currentSession (pair_joined test_store) 2 = Some cs" and d: "us_documentId cs = 2"
    and R: "rooms (pair_joined test_store) 2 = Some R"
    and ch: "channel (pair_joined test_store) 2 = [1, 2]"
    by (elim exE conjE)
  from R d have room: "rooms (pair_joined test_store) (us_documentId cs) = Some R" by simp
  have threw: "applyUpdate test_lib (doc R) (um_update empty_message) = Threw (doc R)"
    by (simp add: empty_message_def test_defs)
  from rejected_update_answers_sender_only [OF cs room, of test_lib empty_message
      1700000000002] threw
  have "on_update test_lib 1700000000002 2 empty_message (pair_joined test_store) =
      ((pair_joined test_store)\<lparr>rooms := (rooms (pair_joined test_store))
          (us_documentId cs \<mapsto> R\<lparr>doc := doc R\<rparr>)\<rparr>, [(2, update_failed)])"
    by blast
  with d R have one: "snd (on_update test_lib 1700000000002 2 empty_message
        (pair_joined test_store)) = [(2, update_failed)]"
    "rooms (fst (on_update test_lib 1700000000002 2 empty_message (pair_joined test_store))) 2 =
      rooms (pair_joined test_store) 2"
    by simp_all
  from pair_joined_failing_state obtain cs' R' st' where
    cs': "currentSession (pair_joined failing_store) 2 = Some cs'"
    and d': "us_documentId cs' = 2"
    and R': "rooms (pair_joined failing_store) 2 = Some R'" and doc': "doc R' = {}"
    and lt': "lamportTime R' = 0"
    and db': "database (pair_joined failing_store) = Some st'" and f': "faults st' = [True]"
    and ch': "channel (pair_joined failing_store) 2 = [1, 2]"
    by (elim exE conjE)
  from R' d' have room': "rooms (pair_joined failing_store) (us_documentId cs') = Some R'"
    by simp
  from doc' have applied: "applyUpdate test_lib (doc R') (um_update bob_message) = Applied {2}"
    by (simp add: bob_message_def test_defs)
  from db' f' have fails: "database (pair_joined failing_store) = None \<or>
      (\<exists>st. database (pair_joined failing_store) = Some st \<and> fst (run_query st))"
    by (simp add: run_query_def)
  from rejected_update_answers_sender_only [OF cs' room', of test_lib bob_message
      1700000000002] applied fails
  have "on_update test_lib 1700000000002 2 bob_message (pair_joined failing_store) =
      ((pair_joined failing_store)\<lparr>rooms := (rooms (pair_joined failing_store))
          (us_documentId cs' \<mapsto>
             R'\<lparr>doc := {2}, lamportTime := lamportTime R' + 1,
                vectorClocks := AList.update (um_clientId bob_message)
                  ((case map_of (vectorClocks R') (um_clientId bob_message) of
                      None \<Rightarrow> 0 | Some n \<Rightarrow> n) + 1)
                  (vectorClocks R')\<rparr>),
          database := map_option (\<lambda>st. snd (run_query st))
             (database (pair_joined failing_store))\<rparr>, [(2, update_failed)])"
    by blast
  with d' lt' have two: "snd (on_update test_lib 1700000000002 2 bob_message
        (pair_joined failing_store)) = [(2, update_failed)]"
    "map_option doc (rooms (fst (on_update test_lib 1700000000002 2 bob_message
        (pair_joined failing_store))) 2) = Some {2}"
    "map_option lamportTime (rooms (fst (on_update test_lib 1700000000002 2 bob_message
        (pair_joined failing_store))) 2) = Some 1"
    by simp_all
  from ch ch' one two show ?thesis by simp
qed

text \<open>
  C7 as stated fails: when the insert of the operation rejects, the sender gets
  \<open>UPDATE_FAILED\<close> and nothing is stored, but the update is merged into the document and
  both clocks have advanced.
\<close>

theorem failed_insert_keeps_merge:
  "map_option doc (rooms (pair_joined failing_store) 2) = Some {} \<and>
   map_option lamportTime (rooms (pair_joined failing_store) 2) = Some 0 \<and>
   map_option vectorClocks (rooms (pair_joined failing_store) 2) = Some [] \<and>
   test_apply {} yjs_insert_b = Applied {2} \<and>
   snd (on_update test_lib 1700000000002 2 bob_message (pair_joined failing_store)) =
     [(2, update_failed)] \<and>
   map_option tbl_operations
     (database (fst (on_update test_lib 1700000000002 2 bob_message
        (pair_joined failing_store)))) = Some [] \<and>
   map_option doc
     (rooms (fst (on_update test_lib 1700000000002 2 bob_message (pair_joined failing_store)))
        2) = Some {2} \<and>
   map_option lamportTime
     (rooms (fst (on_update test_lib 1700000000002 2 bob_message (pair_joined failing_store)))
        2) = Some 1 \<and>
   map_option vectorClocks
     (rooms (fst (on_update test_lib 1700000000002 2 bob_message (pair_joined failing_store)))
        2) = Some [(''b'', 1)]"
  by (simp add: scen_defs db_defs ws_defs test_defs Let_def)


subsection \<open>Updates: the versions of the persisted operations\<close>

text \<open>
  The states \<open>alice_after k\<close> are the ones the server runs through: the first is the state
  after Alice's join, and the update handler takes each to the next, up to the hundredth.
\<close>

lemma alice_joined_session:
  "currentSession alice_joined 1 =
     Some \<lparr>us_userId = 5, us_clientId = ''x'', us_documentId = 1,
           us_color = ''#FF6B6B'', us_lastHeartbeat = 1700000000000\<rparr> \<and>
   channel alice_joined 1 = [1]"
  by (simp add: scen_defs db_defs ws_defs test_defs Let_def)

lemma alice_after_0: "alice_after 0 = alice_joined"
proof -
  have r: "rooms alice_joined 1 = Some (alice_room 0)"
    by (simp add: alice_room_def scen_defs db_defs ws_defs test_defs Let_def)
  have d: "database alice_joined = Some (test_store\<lparr>
                    tbl_sessions := [\<lparr>s_documentId = 1, s_userId = 5, s_clientId = ''x'',
                                      s_userColor = ''#FF6B6B''\<rparr>],
                    tbl_operations := []\<rparr>)"
    by (simp add: scen_defs db_defs ws_defs test_defs Let_def)
  from r have "(rooms alice_joined)(1 \<mapsto> alice_room 0) = rooms alice_joined"
    by (simp add: fun_upd_idem)
  with d show ?thesis by (simp add: alice_after_def)
qed

lemma alice_after_step:
  assumes "k < 100"
  shows "alice_sends k (alice_after k) = alice_after (Suc k)"
proof -
  have ap: "test_apply (if k = 0 then {} else {1}) yjs_insert_a = Applied {1}"
    by (simp add: test_defs)
  have enc: "test_encode yjs_insert_a = ''AQEBAAQBC3NoYXJlZC10ZXh0AWEA''"
    by (simp add: test_defs)
  from assms alice_joined_session ap enc show ?thesis
    by (simp add: alice_sends_def alice_after_def alice_room_def alice_row_def
        alice_message_def on_update_def addOperation_def broadcastUpdate_def io_to_def
        run_query_def test_lib_def test_store_def Let_def)
qed

lemma alice_after_reached:
  "k \<le> 100 \<Longrightarrow> fold alice_sends [0..<k] alice_joined = alice_after k"
  by (induction k) (simp_all add: alice_after_0 alice_after_step)

text \<open>
  From the state with a hundred buffered updates, the next update is stored with version
  100 and triggers the checkpoint, which empties the buffer and moves the snapshot version
  to 1; the update after it is stored with version 1, which the second update already has.
\<close>

lemma alice_checkpoint:
  "map_option (map o_version \<circ> tbl_operations) (database (alice_sends 100 (alice_after 100))) =
     Some ([0..<100] @ [100]) \<and>
   map_option (\<lambda>r. (length (operationBuffer r), version (lastSnapshot r)))
     (rooms (alice_sends 100 (alice_after 100)) 1) = Some (0, 1) \<and>
   map_option (map o_version \<circ> tbl_operations)
     (database (alice_sends 101 (alice_sends 100 (alice_after 100)))) =
     Some ([0..<100] @ [100, 1])"
proof -
  have ap: "test_apply {1} yjs_insert_a = Applied {1}"
    by (simp add: test_defs)
  have enc: "test_encode yjs_insert_a = ''AQEBAAQBC3NoYXJlZC10ZXh0AWEA''"
    by (simp add: test_defs)
  have v: "map o_version (map alice_row xs) = xs" for xs
    by (induction xs) (simp_all add: alice_row_def)
  from alice_joined_session ap enc v show ?thesis
    by (simp add: alice_sends_def alice_after_def alice_room_def
        alice_message_def on_update_def addOperation_def broadcastUpdate_def io_to_def
        persistSnapshot_def run_query_def test_lib_def test_store_def Let_def
        del: upt.simps upt_Suc map_map)
qed

text \<open>
  C5. The claim fails on the code: the version stored with an operation is the snapshot
  version plus the number of updates buffered before it, not after it, and it does not
  increase. Alice's first update of document 1 is stored with version 0 while the room,
  once the update is appended, holds snapshot version 0 and one buffered update. Of 102
  updates that Alice sends one after the other in one room, the first 101 are stored with
  the versions 0 to 100 and the last with version 1 again. And when Alice leaves after
  her first update and joins again, her next update is stored with version 0, for the
  same document.
\<close>

theorem versions_repeat:
  "map_option (map o_version \<circ> tbl_operations) (database alice_updated) = Some [0] \<and>
   map_option (\<lambda>r. (version (lastSnapshot r), length (operationBuffer r)))
     (rooms alice_updated 1) = Some (0, 1) \<and>
   map_option (map o_version \<circ> tbl_operations)
     (database (fold alice_sends [0..<102] alice_joined)) = Some ([0..<101] @ [1]) \<and>
   map_option (map (\<lambda>r. (o_documentId r, o_version r)) \<circ> tbl_operations)
     (database alice_updated_again) = Some [(1, 0), (1, 0)]"
proof -
  have a: "map_option (map o_version \<circ> tbl_operations) (database alice_updated) = Some [0] \<and>
     map_option (\<lambda>r. (version (lastSnapshot r), length (operationBuffer r)))
       (rooms alice_updated 1) = Some (0, 1)"
    by (simp add: scen_defs db_defs ws_defs test_defs Let_def)
  have "[0..<102] = [0..<100] @ [100, 101]"
    by (simp add: upt_rec)
  then have f: "fold alice_sends [0..<102] alice_joined =
      alice_sends 101 (alice_sends 100 (alice_after 100))"
    using alice_after_reached [of 100] by simp
  have e: "[0..<101] @ [1::nat] = [0..<100] @ [100, 1]"
    using upt_Suc_append [of 0 100] by simp
  have b: "map_option (map o_version \<circ> tbl_operations)
     (database (fold alice_sends [0..<102] alice_joined)) = Some ([0..<101] @ [1])"
    using alice_checkpoint [THEN conjunct2, THEN conjunct2] by (simp only: f e)
  have c: "map_option (map (\<lambda>r. (o_documentId r, o_version r)) \<circ> tbl_operations)
     (database alice_updated_again) = Some [(1, 0), (1, 0)]"
    by (simp add: scen_defs db_defs ws_defs test_defs Let_def)
  from a b c show ?thesis by simp
qed

end
